theory Spec2Isabelle
  imports Main
begin

section \<open>Session and token lifecycle of the cloud storage auth service\<close>

text \<open>
  The development embeds \<^verbatim>\<open>utils.JWTManager\<close> (the token codec),
  \<^verbatim>\<open>models.User\<close> and \<^verbatim>\<open>auth.Server\<close> (the session manager) of the Go sources.
  The third-party libraries the code calls (golang-jwt v5, go-redis v9, bcrypt, uuid, the
  clock) are not part of the repository; they are modelled by what their documented
  interface returns, under three idealisations that are stated once here:
  \<^item> a compact JWT is a free term (algorithm name of the header, claims, signature), so
    that two token strings are equal exactly when these parts are equal, and an HMAC is a
    free constructor over hash, key and signing input (no collisions, no forgery);
  \<^item> every clock reading inside one request returns the same instant \<open>now\<close>;
  \<^item> the values of \<^verbatim>\<open>uuid.New()\<close>, the bcrypt salt and the failure of a dependency are
    inputs of the request, collected in the record \<open>env\<close>.
  Instants and durations are unbounded integers counting nanoseconds.
\<close>

subsection \<open>Time\<close>

type_synonym time = int
type_synonym duration = int

definition Second :: duration where
  "Second = 1000000000"

text \<open>\<^verbatim>\<open>jwt.NewNumericDate\<close> truncates an instant to the precision of one second.\<close>

definition NewNumericDate :: "time \<Rightarrow> time" where
  "NewNumericDate t = (t div Second) * Second"

text \<open>
  \<^verbatim>\<open>int64(d.Seconds())\<close>: whole seconds of a duration, rounded towards zero. The
  rounding of the \<^verbatim>\<open>float64\<close> that the source passes through is not modelled.
\<close>

definition Seconds :: "duration \<Rightarrow> int" where
  "Seconds d = (if 0 \<le> d then d div Second else - ((- d) div Second))"

text \<open>\<^verbatim>\<open>time.Until(t)\<close> at the instant \<open>now\<close>.\<close>

definition Until :: "time \<Rightarrow> time \<Rightarrow> duration" where
  "Until now t = t - now"

subsection \<open>The environment of one request\<close>

datatype call =
    DbExistsByEmail | DbGetByEmail | DbCreate
  | BcryptGenerate
  | SignAccess | SignRefresh
  | RedisExists | RedisGet | RedisSet | RedisDel

record env =
  now :: time
  user_uuid :: string
  access_uuid :: string
  refresh_uuid :: string
  salt :: string
  faults :: "call set"

subsection \<open>Tokens (golang-jwt)\<close>

record TokenClaims =
  UserID :: string
  Email :: string
  Type :: string
  ExpiresAt :: "time option"
  NotBefore :: "time option"
  IssuedAt :: "time option"
  ID :: string

datatype hash_alg = SHA256 | SHA384 | SHA512

datatype signing_method =
    SigningMethodHMAC hash_alg
  | SigningMethodRSA hash_alg
  | SigningMethodRSAPSS hash_alg
  | SigningMethodECDSA hash_alg
  | SigningMethodEd25519
  | SigningMethodNone

text \<open>
  A signature is either the HMAC of a signing input (header algorithm and claims) under a
  hash and a key, or any other byte string.
\<close>

datatype signature =
    HMAC hash_alg string string TokenClaims
  | OtherSignature string

text \<open>
  A token string either does not split into three decodable segments, or it is the
  compact form of a header algorithm, the claims and a signature.
\<close>

datatype token_string =
    Malformed string
  | Compact string TokenClaims signature

datatype claims_error = ErrTokenExpired | ErrTokenNotValidYet

datatype jwt_error =
    ErrTokenMalformed
  | ErrTokenUnverifiable
  | ErrTokenSignatureInvalid
  | ErrTokenInvalidClaims "claims_error list"

text \<open>The signing methods that the library registers, by the name in the header.\<close>

definition GetSigningMethod :: "string \<Rightarrow> signing_method option" where
  "GetSigningMethod alg =
    (if alg = ''HS256'' then Some (SigningMethodHMAC SHA256)
     else if alg = ''HS384'' then Some (SigningMethodHMAC SHA384)
     else if alg = ''HS512'' then Some (SigningMethodHMAC SHA512)
     else if alg = ''RS256'' then Some (SigningMethodRSA SHA256)
     else if alg = ''RS384'' then Some (SigningMethodRSA SHA384)
     else if alg = ''RS512'' then Some (SigningMethodRSA SHA512)
     else if alg = ''PS256'' then Some (SigningMethodRSAPSS SHA256)
     else if alg = ''PS384'' then Some (SigningMethodRSAPSS SHA384)
     else if alg = ''PS512'' then Some (SigningMethodRSAPSS SHA512)
     else if alg = ''ES256'' then Some (SigningMethodECDSA SHA256)
     else if alg = ''ES384'' then Some (SigningMethodECDSA SHA384)
     else if alg = ''ES512'' then Some (SigningMethodECDSA SHA512)
     else if alg = ''EdDSA'' then Some SigningMethodEd25519
     else if alg = ''none'' then Some SigningMethodNone
     else None)"

text \<open>
  \<^verbatim>\<open>Method.Verify(signingString, sig, key)\<close> with a byte-slice key: an HMAC method
  recomputes the MAC with its own hash; every other method refuses a byte-slice key.
\<close>

fun Verify :: "signing_method \<Rightarrow> string \<Rightarrow> string \<Rightarrow> TokenClaims \<Rightarrow> signature \<Rightarrow> bool" where
  "Verify (SigningMethodHMAC h) key alg claims sg = (sg = HMAC h key alg claims)"
| "Verify (SigningMethodRSA h) key alg claims sg = False"
| "Verify (SigningMethodRSAPSS h) key alg claims sg = False"
| "Verify (SigningMethodECDSA h) key alg claims sg = False"
| "Verify SigningMethodEd25519 key alg claims sg = False"
| "Verify SigningMethodNone key alg claims sg = False"

text \<open>
  The default validator of version 5: \<^verbatim>\<open>exp\<close> and \<^verbatim>\<open>nbf\<close> are checked when present and
  are not required; \<^verbatim>\<open>iat\<close> is not checked. All failures are collected.
\<close>

definition Validate :: "time \<Rightarrow> TokenClaims \<Rightarrow> claims_error list" where
  "Validate t claims =
    (case ExpiresAt claims of
       None \<Rightarrow> []
     | Some e \<Rightarrow> if t < e then [] else [ErrTokenExpired]) @
    (case NotBefore claims of
       None \<Rightarrow> []
     | Some n \<Rightarrow> if t < n then [ErrTokenNotValidYet] else [])"

text \<open>
  \<^verbatim>\<open>jwt.ParseWithClaims\<close>: split and decode, look the method up, ask the key function,
  verify the signature, validate the claims, in this order. The result \<open>Inr\<close> stands for
  a token with \<^verbatim>\<open>Valid == true\<close>.
\<close>

definition ParseWithClaims ::
  "time \<Rightarrow> token_string \<Rightarrow> (signing_method \<Rightarrow> 'e + string) \<Rightarrow> jwt_error + TokenClaims" where
  "ParseWithClaims t tokenString keyFunc =
    (case tokenString of
       Malformed raw \<Rightarrow> Inl ErrTokenMalformed
     | Compact alg claims sg \<Rightarrow>
        (case GetSigningMethod alg of
           None \<Rightarrow> Inl ErrTokenUnverifiable
         | Some method \<Rightarrow>
            (case keyFunc method of
               Inl err \<Rightarrow> Inl ErrTokenUnverifiable
             | Inr key \<Rightarrow>
                if \<not> Verify method key alg claims sg then Inl ErrTokenSignatureInvalid
                else if Validate t claims \<noteq> [] then Inl (ErrTokenInvalidClaims (Validate t claims))
                else Inr claims)))"

text \<open>
  \<^verbatim>\<open>jwt.NewWithClaims(jwt.SigningMethodHS256, claims).SignedString(key)\<close>; the library
  may report an error, which the environment decides.
\<close>

definition SignedString :: "bool \<Rightarrow> string \<Rightarrow> TokenClaims \<Rightarrow> token_string option" where
  "SignedString fails key claims =
    (if fails then None else Some (Compact ''HS256'' claims (HMAC SHA256 key ''HS256'' claims)))"

subsection \<open>utils.JWTManager\<close>

record JWTManager =
  secret :: string
  accessTokenTTL :: duration
  refreshTokenTTL :: duration

datatype token_error =
    FailedToSignAccessToken
  | FailedToSignRefreshToken
  | FailedToParseToken jwt_error
  | InvalidTokenClaimsOrExpired
  | ExpectedAccess
  | ExpectedRefresh

definition NewJWTManager :: "string \<Rightarrow> duration \<Rightarrow> duration \<Rightarrow> JWTManager" where
  "NewJWTManager sec accessTTL refreshTTL =
    \<lparr>secret = sec, accessTokenTTL = accessTTL, refreshTokenTTL = refreshTTL\<rparr>"

definition GenerateTokenPair ::
  "JWTManager \<Rightarrow> env \<Rightarrow> string \<Rightarrow> string \<Rightarrow> token_error + (token_string \<times> token_string)" where
  "GenerateTokenPair j e userID email =
    (let accessClaims = \<lparr>UserID = userID, Email = email, Type = ''access'',
           ExpiresAt = Some (NewNumericDate (now e + accessTokenTTL j)),
           NotBefore = None,
           IssuedAt = Some (NewNumericDate (now e)),
           ID = access_uuid e\<rparr>
     in case SignedString (SignAccess \<in> faults e) (secret j) accessClaims of
          None \<Rightarrow> Inl FailedToSignAccessToken
        | Some accessToken \<Rightarrow>
           (let refreshClaims = \<lparr>UserID = userID, Email = email, Type = ''refresh'',
                  ExpiresAt = Some (NewNumericDate (now e + refreshTokenTTL j)),
                  NotBefore = None,
                  IssuedAt = Some (NewNumericDate (now e)),
                  ID = refresh_uuid e\<rparr>
            in case SignedString (SignRefresh \<in> faults e) (secret j) refreshClaims of
                 None \<Rightarrow> Inl FailedToSignRefreshToken
               | Some refreshToken \<Rightarrow> Inr (accessToken, refreshToken)))"

text \<open>The key function that \<^verbatim>\<open>ValidateToken\<close> hands to the parser.\<close>

datatype keyfunc_error = UnexpectedSigningMethod

fun keyFunc :: "JWTManager \<Rightarrow> signing_method \<Rightarrow> keyfunc_error + string" where
  "keyFunc j (SigningMethodHMAC h) = Inr (secret j)"
| "keyFunc j (SigningMethodRSA h) = Inl UnexpectedSigningMethod"
| "keyFunc j (SigningMethodRSAPSS h) = Inl UnexpectedSigningMethod"
| "keyFunc j (SigningMethodECDSA h) = Inl UnexpectedSigningMethod"
| "keyFunc j SigningMethodEd25519 = Inl UnexpectedSigningMethod"
| "keyFunc j SigningMethodNone = Inl UnexpectedSigningMethod"

text \<open>
  \<^verbatim>\<open>JWTManager.ValidateToken\<close>. The parser returns no error exactly when the token is
  valid, so the final \<^verbatim>\<open>invalid token claims or expired\<close> return of the source has no
  input in this model.
\<close>

definition ValidateToken :: "JWTManager \<Rightarrow> time \<Rightarrow> token_string \<Rightarrow> token_error + TokenClaims" where
  "ValidateToken j t tokenString =
    (case ParseWithClaims t tokenString (keyFunc j) of
       Inl err \<Rightarrow> Inl (FailedToParseToken err)
     | Inr claims \<Rightarrow> Inr claims)"

definition ValidateAccessToken :: "JWTManager \<Rightarrow> time \<Rightarrow> token_string \<Rightarrow> token_error + TokenClaims" where
  "ValidateAccessToken j t tokenString =
    (case ValidateToken j t tokenString of
       Inl err \<Rightarrow> Inl err
     | Inr claims \<Rightarrow> if Type claims \<noteq> ''access'' then Inl ExpectedAccess else Inr claims)"

definition ValidateRefreshToken :: "JWTManager \<Rightarrow> time \<Rightarrow> token_string \<Rightarrow> token_error + TokenClaims" where
  "ValidateRefreshToken j t tokenString =
    (case ValidateToken j t tokenString of
       Inl err \<Rightarrow> Inl err
     | Inr claims \<Rightarrow> if Type claims \<noteq> ''refresh'' then Inl ExpectedRefresh else Inr claims)"

subsection \<open>models.User\<close>

text \<open>
  A bcrypt hash is a free term over the salt and the password; any other stored string is
  not a hash.
\<close>

datatype password_hash = Bcrypt string string | NotBcrypt string

record User =
  User_ID :: string
  User_Email :: string
  PasswordHash :: password_hash
  User_Name :: string
  CreatedAt :: time
  UpdatedAt :: time

datatype bcrypt_error = BcryptError

text \<open>
  \<^verbatim>\<open>bcrypt.GenerateFromPassword\<close>; the library may report an error (recent versions do for
  a password over 72 bytes), which the environment decides.
\<close>

definition GenerateFromPassword :: "bool \<Rightarrow> string \<Rightarrow> string \<Rightarrow> bcrypt_error + password_hash" where
  "GenerateFromPassword fails slt password =
    (if fails then Inl BcryptError else Inr (Bcrypt slt password))"

definition CompareHashAndPassword :: "password_hash \<Rightarrow> string \<Rightarrow> bool" where
  "CompareHashAndPassword h password =
    (case h of Bcrypt slt p \<Rightarrow> p = password | NotBcrypt raw \<Rightarrow> False)"

definition NewUser :: "env \<Rightarrow> string \<Rightarrow> string \<Rightarrow> string \<Rightarrow> bcrypt_error + User" where
  "NewUser e email password name =
    (case GenerateFromPassword (BcryptGenerate \<in> faults e) (salt e) password of
       Inl err \<Rightarrow> Inl err
     | Inr hashedPassword \<Rightarrow>
        Inr \<lparr>User_ID = user_uuid e, User_Email = email, PasswordHash = hashedPassword,
             User_Name = name, CreatedAt = now e, UpdatedAt = now e\<rparr>)"

definition CheckPassword :: "User \<Rightarrow> string \<Rightarrow> bool" where
  "CheckPassword u password = CompareHashAndPassword (PasswordHash u) password"

subsection \<open>The credential store (repositories.UserRepository)\<close>

datatype db_error = ErrNoRows | UniqueViolation | DbUnavailable

text \<open>
  Modelled from the spec: \<^verbatim>\<open>UserRepository.ExistsByEmail\<close> is not among the sources. The
  spec gives the credential store \<^verbatim>\<open>exists(email) -> bool\<close>; the table of principals is a
  list of rows, and a failure of the database is decided by the environment.
\<close>

definition ExistsByEmail :: "env \<Rightarrow> User list \<Rightarrow> string \<Rightarrow> db_error + bool" where
  "ExistsByEmail e rows email =
    (if DbExistsByEmail \<in> faults e then Inl DbUnavailable
     else Inr (find (\<lambda>u. User_Email u = email) rows \<noteq> None))"

text \<open>
  Modelled from the spec: \<^verbatim>\<open>UserRepository.GetByEmail\<close> is not among the sources. The
  spec gives the credential store \<^verbatim>\<open>lookup(email) -> Principal|NotFound\<close>.
\<close>

definition GetByEmail :: "env \<Rightarrow> User list \<Rightarrow> string \<Rightarrow> db_error + User" where
  "GetByEmail e rows email =
    (if DbGetByEmail \<in> faults e then Inl DbUnavailable
     else case find (\<lambda>u. User_Email u = email) rows of
            None \<Rightarrow> Inl ErrNoRows
          | Some u \<Rightarrow> Inr u)"

text \<open>
  Modelled from the spec: \<^verbatim>\<open>UserRepository.Create\<close> is not among the sources. The spec
  gives the credential store \<^verbatim>\<open>create(Principal)\<close> with a unique \<^verbatim>\<open>id\<close> and a unique
  \<^verbatim>\<open>email\<close>; a row that would break uniqueness is refused and nothing is stored.
\<close>

definition Create :: "env \<Rightarrow> User list \<Rightarrow> User \<Rightarrow> db_error option \<times> User list" where
  "Create e rows u =
    (if DbCreate \<in> faults e then (Some DbUnavailable, rows)
     else if find (\<lambda>r. User_Email r = User_Email u) rows \<noteq> None
     then (Some UniqueViolation, rows)
     else if find (\<lambda>r. User_ID r = User_ID u) rows \<noteq> None
     then (Some UniqueViolation, rows)
     else (None, rows @ [u]))"

subsection \<open>The session store (go-redis)\<close>

text \<open>
  The server uses two families of keys, \<^verbatim>\<open>"refresh:" + userID\<close> and
  \<^verbatim>\<open>"blacklist:" + token\<close>. The prefixes differ in their first character, so the families
  never meet and each is a table of its own, from the suffix of the key to the stored value
  and the instant at which the entry expires (\<open>None\<close>: never). An expired entry is not
  seen by any read. A command that fails leaves the table as it was. The store keeps
  deadlines in milliseconds; here a deadline is the exact instant.
\<close>

type_synonym ('k, 'v) table = "'k \<Rightarrow> ('v \<times> time option) option"

datatype redis_error = RedisNil | RedisUnavailable

definition live :: "time \<Rightarrow> ('k, 'v) table \<Rightarrow> 'k \<Rightarrow> 'v option" where
  "live t tbl k =
    (case tbl k of
       None \<Rightarrow> None
     | Some (v, None) \<Rightarrow> Some v
     | Some (v, Some d) \<Rightarrow> if t < d then Some v else None)"

definition redis_Exists :: "env \<Rightarrow> ('k, 'v) table \<Rightarrow> 'k \<Rightarrow> redis_error + int" where
  "redis_Exists e tbl k =
    (if RedisExists \<in> faults e then Inl RedisUnavailable
     else case live (now e) tbl k of None \<Rightarrow> Inr 0 | Some v \<Rightarrow> Inr 1)"

definition redis_Get :: "env \<Rightarrow> ('k, 'v) table \<Rightarrow> 'k \<Rightarrow> redis_error + 'v" where
  "redis_Get e tbl k =
    (if RedisGet \<in> faults e then Inl RedisUnavailable
     else case live (now e) tbl k of None \<Rightarrow> Inl RedisNil | Some v \<Rightarrow> Inr v)"

text \<open>
  \<^verbatim>\<open>Set(key, value, expiration)\<close>: a positive expiration sets the deadline, the value
  \<^verbatim>\<open>KeepTTL = -1\<close> keeps the deadline of a live entry, anything else stores without one.
\<close>

definition KeepTTL :: duration where
  "KeepTTL = - 1"

definition redis_Set ::
  "env \<Rightarrow> ('k, 'v) table \<Rightarrow> 'k \<Rightarrow> 'v \<Rightarrow> duration \<Rightarrow> redis_error option \<times> ('k, 'v) table" where
  "redis_Set e tbl k v expiration =
    (if RedisSet \<in> faults e then (Some RedisUnavailable, tbl)
     else if 0 < expiration then (None, tbl(k \<mapsto> (v, Some (now e + expiration))))
     else if expiration = KeepTTL then
       (None, tbl(k \<mapsto> (v, case tbl k of
                             Some (old, Some d) \<Rightarrow> if now e < d then Some d else None
                           | _ \<Rightarrow> None)))
     else (None, tbl(k \<mapsto> (v, None))))"

definition redis_Del :: "env \<Rightarrow> ('k, 'v) table \<Rightarrow> 'k \<Rightarrow> redis_error option \<times> ('k, 'v) table" where
  "redis_Del e tbl k =
    (if RedisDel \<in> faults e then (Some RedisUnavailable, tbl)
     else (None, tbl(k := None)))"

subsection \<open>auth.Server\<close>

record JWTConfig =
  Secret :: string
  AccessTokenTTL :: duration
  RefreshTokenTTL :: duration

record Server =
  jwtManager :: JWTManager
  config :: JWTConfig

definition NewServer :: "JWTConfig \<Rightarrow> Server" where
  "NewServer cfg =
    \<lparr>jwtManager = NewJWTManager (Secret cfg) (AccessTokenTTL cfg) (RefreshTokenTTL cfg),
     config = cfg\<rparr>"

text \<open>
  What the server reads and writes outside itself: the rows of the credential store and
  the two key families of the session store.
\<close>

record state =
  users :: "User list"
  refresh_keys :: "(string, token_string) table"
  blacklist_keys :: "(token_string, string) table"

record RegisterRequest =
  Register_Email :: string
  Register_Password :: string
  Register_Name :: string

record LoginRequest =
  Login_Email :: string
  Login_Password :: string

record RegisterResponse =
  Registered_UserId :: string
  Registered_Email :: string
  Registered_Name :: string
  Registered_AccessToken :: token_string
  Registered_AccessExpiresIn :: int
  Registered_RefreshToken :: token_string
  Registered_RefreshExpiresIn :: int

record LoginResponse =
  LoggedIn_UserId :: string
  LoggedIn_Email :: string
  LoggedIn_Name :: string
  LoggedIn_AccessToken :: token_string
  LoggedIn_AccessExpiresIn :: int
  LoggedIn_RefreshToken :: token_string
  LoggedIn_RefreshExpiresIn :: int

record RefreshResponse =
  AccessToken :: token_string
  AccessExpiresIn :: int
  RefreshToken :: token_string
  RefreshExpiresIn :: int

record ValidateTokenResponse =
  Valid :: bool
  UserId :: string
  Validated_Email :: string
  ExpiresIn :: int

record LogoutResponse =
  Success :: bool

text \<open>
  One constructor for each error the server builds, with the wrapped cause where the
  source wraps one (\<^verbatim>\<open>%w\<close>). \<open>NilPointerDereference\<close> is not a returned error: it is the
  run-time panic of reading \<^verbatim>\<open>claims.ExpiresAt.Time\<close> when \<^verbatim>\<open>ExpiresAt\<close> is nil.
\<close>

datatype auth_error =
    FailedToCheckUserExistence db_error
  | UserAlreadyExists
  | FailedToCreateUser bcrypt_error
  | FailedToSaveUser db_error
  | FailedToGenerateTokens token_error
  | FailedToStoreRefreshToken redis_error
  | InvalidCredentials
  | RedisBlacklistCheckFailed redis_error
  | RefreshTokenBlacklisted
  | InvalidRefreshToken token_error
  | RefreshTokenNotFound redis_error
  | RefreshTokenMismatch
  | FailedToGenerateNewTokens token_error
  | FailedToSaveNewRefreshToken redis_error
  | FailedToBlacklistToken redis_error
  | FailedToDeleteRefreshToken redis_error
  | NilPointerDereference

definition Register ::
  "Server \<Rightarrow> env \<Rightarrow> state \<Rightarrow> RegisterRequest \<Rightarrow> (auth_error + RegisterResponse) \<times> state" where
  "Register s e st req =
    (case ExistsByEmail e (users st) (Register_Email req) of
       Inl err \<Rightarrow> (Inl (FailedToCheckUserExistence err), st)
     | Inr exists \<Rightarrow>
        if exists then (Inl UserAlreadyExists, st)
        else
          (case NewUser e (Register_Email req) (Register_Password req) (Register_Name req) of
             Inl err \<Rightarrow> (Inl (FailedToCreateUser err), st)
           | Inr user \<Rightarrow>
              (case Create e (users st) user of
                 (Some err, rows) \<Rightarrow> (Inl (FailedToSaveUser err), st\<lparr>users := rows\<rparr>)
               | (None, rows) \<Rightarrow>
                  (case GenerateTokenPair (jwtManager s) e (User_ID user) (User_Email user) of
                     Inl err \<Rightarrow> (Inl (FailedToGenerateTokens err), st\<lparr>users := rows\<rparr>)
                   | Inr (accessToken, refreshToken) \<Rightarrow>
                      (case redis_Set e (refresh_keys st) (User_ID user) refreshToken
                              (RefreshTokenTTL (config s)) of
                         (Some err, tbl) \<Rightarrow>
                           (Inl (FailedToStoreRefreshToken err),
                            st\<lparr>users := rows, refresh_keys := tbl\<rparr>)
                       | (None, tbl) \<Rightarrow>
                           (Inr \<lparr>Registered_UserId = User_ID user,
                                 Registered_Email = User_Email user,
                                 Registered_Name = User_Name user,
                                 Registered_AccessToken = accessToken,
                                 Registered_AccessExpiresIn = Seconds (AccessTokenTTL (config s)),
                                 Registered_RefreshToken = refreshToken,
                                 Registered_RefreshExpiresIn = Seconds (RefreshTokenTTL (config s))\<rparr>,
                            st\<lparr>users := rows, refresh_keys := tbl\<rparr>))))))"

definition Login ::
  "Server \<Rightarrow> env \<Rightarrow> state \<Rightarrow> LoginRequest \<Rightarrow> (auth_error + LoginResponse) \<times> state" where
  "Login s e st req =
    (case GetByEmail e (users st) (Login_Email req) of
       Inl err \<Rightarrow> (Inl InvalidCredentials, st)
     | Inr user \<Rightarrow>
        if \<not> CheckPassword user (Login_Password req) then (Inl InvalidCredentials, st)
        else
          (case GenerateTokenPair (jwtManager s) e (User_ID user) (User_Email user) of
             Inl err \<Rightarrow> (Inl (FailedToGenerateTokens err), st)
           | Inr (accessToken, refreshToken) \<Rightarrow>
              (case redis_Set e (refresh_keys st) (User_ID user) refreshToken
                      (RefreshTokenTTL (config s)) of
                 (Some err, tbl) \<Rightarrow>
                   (Inl (FailedToStoreRefreshToken err), st\<lparr>refresh_keys := tbl\<rparr>)
               | (None, tbl) \<Rightarrow>
                   (Inr \<lparr>LoggedIn_UserId = User_ID user,
                         LoggedIn_Email = User_Email user,
                         LoggedIn_Name = User_Name user,
                         LoggedIn_AccessToken = accessToken,
                         LoggedIn_AccessExpiresIn = Seconds (AccessTokenTTL (config s)),
                         LoggedIn_RefreshToken = refreshToken,
                         LoggedIn_RefreshExpiresIn = Seconds (RefreshTokenTTL (config s))\<rparr>,
                    st\<lparr>refresh_keys := tbl\<rparr>))))"

definition Refresh ::
  "Server \<Rightarrow> env \<Rightarrow> state \<Rightarrow> token_string \<Rightarrow> (auth_error + RefreshResponse) \<times> state" where
  "Refresh s e st refreshToken =
    (case redis_Exists e (blacklist_keys st) refreshToken of
       Inl err \<Rightarrow> (Inl (RedisBlacklistCheckFailed err), st)
     | Inr blacklisted \<Rightarrow>
        if 0 < blacklisted then (Inl RefreshTokenBlacklisted, st)
        else
          (case ValidateRefreshToken (jwtManager s) (now e) refreshToken of
             Inl err \<Rightarrow> (Inl (InvalidRefreshToken err), st)
           | Inr claims \<Rightarrow>
              (case redis_Get e (refresh_keys st) (UserID claims) of
                 Inl err \<Rightarrow> (Inl (RefreshTokenNotFound err), st)
               | Inr storedRefresh \<Rightarrow>
                  if storedRefresh \<noteq> refreshToken then (Inl RefreshTokenMismatch, st)
                  else
                    (case GenerateTokenPair (jwtManager s) e (UserID claims) (Email claims) of
                       Inl err \<Rightarrow> (Inl (FailedToGenerateNewTokens err), st)
                     | Inr (newAccessToken, newRefreshToken) \<Rightarrow>
                        (case redis_Set e (refresh_keys st) (UserID claims) newRefreshToken
                                (RefreshTokenTTL (config s)) of
                           (Some err, tbl) \<Rightarrow>
                             (Inl (FailedToSaveNewRefreshToken err), st\<lparr>refresh_keys := tbl\<rparr>)
                         | (None, tbl) \<Rightarrow>
                             (Inr \<lparr>AccessToken = newAccessToken,
                                   AccessExpiresIn = Seconds (AccessTokenTTL (config s)),
                                   RefreshToken = newRefreshToken,
                                   RefreshExpiresIn = Seconds (RefreshTokenTTL (config s))\<rparr>,
                              st\<lparr>refresh_keys := tbl\<rparr>))))))"

text \<open>
  \<^verbatim>\<open>Server.ValidateToken\<close>, the operation the spec calls ValidateAccessToken. It takes no
  state: the source touches neither store.
\<close>

definition Server_ValidateToken ::
  "Server \<Rightarrow> env \<Rightarrow> token_string \<Rightarrow> auth_error + ValidateTokenResponse" where
  "Server_ValidateToken s e token =
    (case ValidateAccessToken (jwtManager s) (now e) token of
       Inl err \<Rightarrow> Inr \<lparr>Valid = False, UserId = [], Validated_Email = [], ExpiresIn = 0\<rparr>
     | Inr claims \<Rightarrow>
        (case ExpiresAt claims of
           None \<Rightarrow> Inl NilPointerDereference
         | Some expiresAt \<Rightarrow>
            Inr \<lparr>Valid = True, UserId = UserID claims, Validated_Email = Email claims,
                 ExpiresIn = Seconds (Until (now e) expiresAt)\<rparr>))"

definition Logout ::
  "Server \<Rightarrow> env \<Rightarrow> state \<Rightarrow> token_string \<Rightarrow> (auth_error + LogoutResponse) \<times> state" where
  "Logout s e st refreshToken =
    (case ValidateRefreshToken (jwtManager s) (now e) refreshToken of
       Inl err \<Rightarrow> (Inr \<lparr>Success = False\<rparr>, st)
     | Inr claims \<Rightarrow>
        (case ExpiresAt claims of
           None \<Rightarrow> (Inl NilPointerDereference, st)
         | Some expiresAt \<Rightarrow>
            (let remainingTTL = Until (now e) expiresAt;
                 blacklisting =
                   (if 0 < remainingTTL
                    then redis_Set e (blacklist_keys st) refreshToken ''1'' remainingTTL
                    else (None, blacklist_keys st))
             in case blacklisting of
                  (Some err, bl) \<Rightarrow>
                    (Inl (FailedToBlacklistToken err), st\<lparr>blacklist_keys := bl\<rparr>)
                | (None, bl) \<Rightarrow>
                    (case redis_Del e (refresh_keys st) (UserID claims) of
                       (Some err, tbl) \<Rightarrow>
                         (Inl (FailedToDeleteRefreshToken err),
                          st\<lparr>blacklist_keys := bl, refresh_keys := tbl\<rparr>)
                     | (None, tbl) \<Rightarrow>
                         (Inr \<lparr>Success = True\<rparr>,
                          st\<lparr>blacklist_keys := bl, refresh_keys := tbl\<rparr>)))))"

subsection \<open>The session record as the spec names it\<close>

text \<open>
  \<^verbatim>\<open>revoked\<close>: the token has a live entry under \<^verbatim>\<open>"blacklist:"\<close>;
  \<^verbatim>\<open>activeRefresh[principalId]\<close>: the live value under \<^verbatim>\<open>"refresh:" + principalId\<close>.
\<close>

definition revoked :: "time \<Rightarrow> state \<Rightarrow> token_string \<Rightarrow> bool" where
  "revoked t st token = (live t (blacklist_keys st) token \<noteq> None)"

definition activeRefresh :: "time \<Rightarrow> state \<Rightarrow> string \<Rightarrow> token_string option" where
  "activeRefresh t st principalId = live t (refresh_keys st) principalId"

subsection \<open>Sequences of requests\<close>

text \<open>
  The claims element of a token string, as \<^verbatim>\<open>ParseUnverified\<close> would decode it.
\<close>

fun claims_of :: "token_string \<Rightarrow> TokenClaims option" where
  "claims_of (Malformed raw) = None"
| "claims_of (Compact alg claims sg) = Some claims"

datatype request =
    RegisterReq RegisterRequest
  | LoginReq LoginRequest
  | RefreshReq token_string
  | ValidateTokenReq token_string
  | LogoutReq token_string

text \<open>The state that serving one request leaves behind.\<close>

fun serve :: "Server \<Rightarrow> state \<Rightarrow> env \<times> request \<Rightarrow> state" where
  "serve s st (e, RegisterReq req) = snd (Register s e st req)"
| "serve s st (e, LoginReq req) = snd (Login s e st req)"
| "serve s st (e, RefreshReq token) = snd (Refresh s e st token)"
| "serve s st (e, ValidateTokenReq token) = st"
| "serve s st (e, LogoutReq token) = snd (Logout s e st token)"

definition serve_all :: "Server \<Rightarrow> state \<Rightarrow> (env \<times> request) list \<Rightarrow> state" where
  "serve_all s st reqs = foldl (serve s) st reqs"

subsection \<open>A concrete server, used for examples\<close>

definition cfg0 :: JWTConfig where
  "cfg0 = \<lparr>Secret = ''k'', AccessTokenTTL = 900 * Second, RefreshTokenTTL = 604800 * Second\<rparr>"

definition srv0 :: Server where
  "srv0 = NewServer cfg0"

definition env0 :: env where
  "env0 = \<lparr>now = 0, user_uuid = ''u1'', access_uuid = ''a1'', refresh_uuid = ''r1'',
            salt = ''s'', faults = {}\<rparr>"

definition env1 :: env where
  "env1 = \<lparr>now = Second, user_uuid = ''u2'', access_uuid = ''a2'', refresh_uuid = ''r2'',
            salt = ''s'', faults = {}\<rparr>"

definition env2 :: env where
  "env2 = \<lparr>now = 2 * Second, user_uuid = ''u3'', access_uuid = ''a3'', refresh_uuid = ''r3'',
            salt = ''s'', faults = {}\<rparr>"

definition access_claims :: "time \<Rightarrow> string \<Rightarrow> TokenClaims" where
  "access_claims t uuid =
    \<lparr>UserID = ''u1'', Email = ''a@x.com'', Type = ''access'',
     ExpiresAt = Some (t + 900 * Second), NotBefore = None, IssuedAt = Some t, ID = uuid\<rparr>"

definition refresh_claims :: "time \<Rightarrow> string \<Rightarrow> TokenClaims" where
  "refresh_claims t uuid =
    \<lparr>UserID = ''u1'', Email = ''a@x.com'', Type = ''refresh'',
     ExpiresAt = Some (t + 604800 * Second), NotBefore = None, IssuedAt = Some t, ID = uuid\<rparr>"

definition hs256 :: "TokenClaims \<Rightarrow> token_string" where
  "hs256 claims = Compact ''HS256'' claims (HMAC SHA256 ''k'' ''HS256'' claims)"

definition hs384 :: "TokenClaims \<Rightarrow> token_string" where
  "hs384 claims = Compact ''HS384'' claims (HMAC SHA384 ''k'' ''HS384'' claims)"

definition hs512 :: "TokenClaims \<Rightarrow> token_string" where
  "hs512 claims = Compact ''HS512'' claims (HMAC SHA512 ''k'' ''HS512'' claims)"

definition user1 :: User where
  "user1 = \<lparr>User_ID = ''u1'', User_Email = ''a@x.com'', PasswordHash = Bcrypt ''s'' ''pw'',
             User_Name = ''A'', CreatedAt = 0, UpdatedAt = 0\<rparr>"

definition st0 :: state where
  "st0 = \<lparr>users = [], refresh_keys = Map.empty, blacklist_keys = Map.empty\<rparr>"

text \<open>The state after the registration of \<open>user1\<close> at the instant 0.\<close>

definition st1 :: state where
  "st1 = \<lparr>users = [user1],
          refresh_keys = [''u1'' \<mapsto> (hs256 (refresh_claims 0 ''r1''), Some (604800 * Second))],
          blacklist_keys = Map.empty\<rparr>"

text \<open>The state after the refresh token of \<open>st1\<close> was rotated at the instant \<open>Second\<close>.\<close>

definition st1_rotated :: state where
  "st1_rotated = \<lparr>users = [user1],
          refresh_keys = [''u1'' \<mapsto> (hs256 (refresh_claims Second ''r2''), Some (604801 * Second))],
          blacklist_keys = Map.empty\<rparr>"

text \<open>The state after the refresh token of \<open>st1\<close> was logged out at the instant \<open>Second\<close>.\<close>

definition st1_revoked :: state where
  "st1_revoked = \<lparr>users = [user1],
          refresh_keys = Map.empty,
          blacklist_keys = [hs256 (refresh_claims 0 ''r1'') \<mapsto> (''1'', Some (604800 * Second))]\<rparr>"

text \<open>
  The state after a login of \<open>user1\<close> at the instant \<open>2 * Second\<close>, the request of that
  login and the shape of its response.
\<close>

definition st1_relogged :: state where
  "st1_relogged = \<lparr>users = [user1],
          refresh_keys =
            [''u1'' \<mapsto> (hs256 (refresh_claims (2 * Second) ''r3''), Some (604802 * Second))],
          blacklist_keys = Map.empty\<rparr>"

definition login1 :: LoginRequest where
  "login1 = \<lparr>Login_Email = ''a@x.com'', Login_Password = ''pw''\<rparr>"

definition logged_in :: "token_string \<Rightarrow> token_string \<Rightarrow> LoginResponse" where
  "logged_in a r =
    \<lparr>LoggedIn_UserId = ''u1'', LoggedIn_Email = ''a@x.com'', LoggedIn_Name = ''A'',
     LoggedIn_AccessToken = a, LoggedIn_AccessExpiresIn = 900,
     LoggedIn_RefreshToken = r, LoggedIn_RefreshExpiresIn = 604800\<rparr>"

text \<open>
  A registration of \<open>user1\<close>, an environment in which the write to the session store
  fails, and the state that holds \<open>user1\<close> without any session.
\<close>

definition register1 :: RegisterRequest where
  "register1 = \<lparr>Register_Email = ''a@x.com'', Register_Password = ''pw'', Register_Name = ''A''\<rparr>"

definition env0_set_fails :: env where
  "env0_set_fails = env0\<lparr>faults := {RedisSet}\<rparr>"

definition st0_user1 :: state where
  "st0_user1 = \<lparr>users = [user1], refresh_keys = Map.empty, blacklist_keys = Map.empty\<rparr>"

text \<open>Correctly signed claims of an access token that carry no expiry.\<close>

definition eternal_claims :: TokenClaims where
  "eternal_claims =
    \<lparr>UserID = ''u1'', Email = ''a@x.com'', Type = ''access'',
     ExpiresAt = None, NotBefore = None, IssuedAt = Some 0, ID = ''a1''\<rparr>"

section \<open>Properties\<close>

subsection \<open>Evaluating the examples\<close>

lemmas example_defs =
  cfg0_def srv0_def env0_def env1_def env2_def access_claims_def refresh_claims_def
  hs256_def hs384_def hs512_def user1_def st0_def st1_def st1_rotated_def st1_revoked_def
  st1_relogged_def login1_def logged_in_def register1_def env0_set_fails_def st0_user1_def
  eternal_claims_def
  NewServer_def NewJWTManager_def Second_def Let_def

lemmas codec_defs =
  GenerateTokenPair_def SignedString_def NewNumericDate_def
  ValidateAccessToken_def ValidateRefreshToken_def ValidateToken_def
  ParseWithClaims_def GetSigningMethod_def Validate_def

lemmas store_defs =
  redis_Exists_def redis_Get_def redis_Set_def redis_Del_def live_def
  revoked_def activeRefresh_def KeepTTL_def
  ExistsByEmail_def GetByEmail_def Create_def
  NewUser_def GenerateFromPassword_def CheckPassword_def CompareHashAndPassword_def

subsection \<open>The token codec\<close>

lemma ValidateToken_Inr:
  assumes "ValidateToken j t tok = Inr c"
  obtains alg h where "tok = Compact alg c (HMAC h (secret j) alg c)"
    and "GetSigningMethod alg = Some (SigningMethodHMAC h)"
    and "Validate t c = []"
proof -
  note defs = ValidateToken_def ParseWithClaims_def
  from assms obtain alg sg where tok: "tok = Compact alg c sg"
    by (cases tok) (auto simp: defs split: option.splits sum.splits if_splits)
  from assms tok obtain m where m: "GetSigningMethod alg = Some m"
    by (auto simp: defs split: option.splits sum.splits if_splits)
  from assms tok m obtain h where h: "m = SigningMethodHMAC h"
    by (cases m) (auto simp: defs split: option.splits sum.splits if_splits)
  from assms tok m h have "sg = HMAC h (secret j) alg c" "Validate t c = []"
    by (auto simp: defs split: option.splits sum.splits if_splits)
  with tok m h that show thesis by blast
qed

lemma ValidateRefreshToken_Inr:
  "ValidateRefreshToken j t tok = Inr c \<longleftrightarrow> ValidateToken j t tok = Inr c \<and> Type c = ''refresh''"
  by (auto simp: ValidateRefreshToken_def split: sum.splits)

lemma ValidateAccessToken_Inr:
  "ValidateAccessToken j t tok = Inr c \<longleftrightarrow> ValidateToken j t tok = Inr c \<and> Type c = ''access''"
  by (auto simp: ValidateAccessToken_def split: sum.splits)

lemma ValidateToken_claims_of:
  "ValidateToken j t tok = Inr c \<Longrightarrow> claims_of tok = Some c"
  by (erule ValidateToken_Inr) simp

lemma Validate_expiry:
  "Validate t c = [] \<Longrightarrow> ExpiresAt c = Some d \<Longrightarrow> t < d"
  by (auto simp: Validate_def split: if_splits)

lemma NewNumericDate_le: "NewNumericDate t \<le> t"
proof -
  have "t div Second * Second = t - t mod Second"
    by (simp add: minus_mod_eq_div_mult)
  moreover have "0 \<le> t mod Second"
    by (simp add: Second_def)
  ultimately show ?thesis
    by (simp add: NewNumericDate_def)
qed

lemma GenerateTokenPair_Inr:
  assumes "GenerateTokenPair j e uid email = Inr (a, r)"
  shows "a = Compact ''HS256''
            \<lparr>UserID = uid, Email = email, Type = ''access'',
             ExpiresAt = Some (NewNumericDate (now e + accessTokenTTL j)), NotBefore = None,
             IssuedAt = Some (NewNumericDate (now e)), ID = access_uuid e\<rparr>
            (HMAC SHA256 (secret j) ''HS256''
              \<lparr>UserID = uid, Email = email, Type = ''access'',
               ExpiresAt = Some (NewNumericDate (now e + accessTokenTTL j)), NotBefore = None,
               IssuedAt = Some (NewNumericDate (now e)), ID = access_uuid e\<rparr>)"
    and "r = Compact ''HS256''
            \<lparr>UserID = uid, Email = email, Type = ''refresh'',
             ExpiresAt = Some (NewNumericDate (now e + refreshTokenTTL j)), NotBefore = None,
             IssuedAt = Some (NewNumericDate (now e)), ID = refresh_uuid e\<rparr>
            (HMAC SHA256 (secret j) ''HS256''
              \<lparr>UserID = uid, Email = email, Type = ''refresh'',
               ExpiresAt = Some (NewNumericDate (now e + refreshTokenTTL j)), NotBefore = None,
               IssuedAt = Some (NewNumericDate (now e)), ID = refresh_uuid e\<rparr>)"
  using assms
  by (auto simp: GenerateTokenPair_def SignedString_def Let_def split: option.splits if_splits)

lemma GenerateTokenPair_refresh_claims:
  assumes "GenerateTokenPair j e uid email = Inr (a, r)"
  obtains c where "claims_of r = Some c" "UserID c = uid" "Email c = email" "Type c = ''refresh''"
    "ExpiresAt c = Some (NewNumericDate (now e + refreshTokenTTL j))" "NotBefore c = None"
    "ID c = refresh_uuid e" "r = Compact ''HS256'' c (HMAC SHA256 (secret j) ''HS256'' c)"
  using GenerateTokenPair_Inr(2)[OF assms] by simp

lemma GenerateTokenPair_access_claims:
  assumes "GenerateTokenPair j e uid email = Inr (a, r)"
  obtains c where "claims_of a = Some c" "UserID c = uid" "Email c = email" "Type c = ''access''"
    "ExpiresAt c = Some (NewNumericDate (now e + accessTokenTTL j))" "NotBefore c = None"
    "ID c = access_uuid e" "a = Compact ''HS256'' c (HMAC SHA256 (secret j) ''HS256'' c)"
  using GenerateTokenPair_Inr(1)[OF assms] by simp

lemma ValidateToken_issued:
  assumes "tok = Compact ''HS256'' c (HMAC SHA256 (secret j) ''HS256'' c)"
    and "ExpiresAt c = Some d" and "NotBefore c = None" and "t < d"
  shows "ValidateToken j t tok = Inr c"
  using assms by (simp add: ValidateToken_def ParseWithClaims_def GetSigningMethod_def Validate_def)

subsection \<open>The session store\<close>

lemma redis_Exists_cases:
  "redis_Exists e tbl k =
    (if RedisExists \<in> faults e then Inl RedisUnavailable
     else if live (now e) tbl k = None then Inr 0 else Inr 1)"
  by (simp add: redis_Exists_def split: option.splits)

lemma redis_Get_Inr:
  "redis_Get e tbl k = Inr v \<longleftrightarrow> RedisGet \<notin> faults e \<and> live (now e) tbl k = Some v"
  by (simp add: redis_Get_def split: option.splits)

lemma redis_Get_Inl:
  "redis_Get e tbl k = Inl err \<longleftrightarrow>
     (if RedisGet \<in> faults e then err = RedisUnavailable
      else live (now e) tbl k = None \<and> err = RedisNil)"
  by (auto simp: redis_Get_def split: option.splits)

lemma redis_Set_ok:
  assumes "redis_Set e tbl k v ttl = (None, tbl')"
  shows "RedisSet \<notin> faults e" and "live (now e) tbl' k = Some v"
    and "\<And>k'. k' \<noteq> k \<Longrightarrow> tbl' k' = tbl k'"
  using assms
  by (auto simp: redis_Set_def live_def split: if_splits option.splits prod.splits)

lemma redis_Set_positive:
  assumes "redis_Set e tbl k v ttl = (None, tbl')" and "0 < ttl"
  shows "tbl' = tbl(k \<mapsto> (v, Some (now e + ttl)))"
  using assms by (auto simp: redis_Set_def split: if_splits)

lemma redis_Set_err:
  "redis_Set e tbl k v ttl = (Some err, tbl') \<Longrightarrow>
     tbl' = tbl \<and> err = RedisUnavailable \<and> RedisSet \<in> faults e"
  by (auto simp: redis_Set_def split: if_splits)

lemma redis_Set_no_fault:
  "RedisSet \<notin> faults e \<Longrightarrow> \<exists>tbl'. redis_Set e tbl k v ttl = (None, tbl')"
  by (simp add: redis_Set_def)

lemma redis_Del_cases:
  "redis_Del e tbl k =
    (if RedisDel \<in> faults e then (Some RedisUnavailable, tbl) else (None, tbl(k := None)))"
  by (simp add: redis_Del_def)

subsection \<open>What a successful request has checked and written\<close>

lemma Refresh_Inr:
  assumes "Refresh s e st tok = (Inr resp, st')"
  obtains c tbl where
    "RedisExists \<notin> faults e" "live (now e) (blacklist_keys st) tok = None"
    "ValidateRefreshToken (jwtManager s) (now e) tok = Inr c"
    "RedisGet \<notin> faults e" "live (now e) (refresh_keys st) (UserID c) = Some tok"
    "GenerateTokenPair (jwtManager s) e (UserID c) (Email c) = Inr (AccessToken resp, RefreshToken resp)"
    "redis_Set e (refresh_keys st) (UserID c) (RefreshToken resp) (RefreshTokenTTL (config s)) = (None, tbl)"
    "st' = st\<lparr>refresh_keys := tbl\<rparr>"
  using assms unfolding Refresh_def redis_Exists_cases
  by (auto simp: redis_Get_Inr split: sum.splits if_splits prod.splits option.splits)

lemma Refresh_Inl:
  "Refresh s e st tok = (Inl err, st') \<Longrightarrow> st' = st"
  unfolding Refresh_def
  by (auto split: sum.splits if_splits prod.splits option.splits dest: redis_Set_err)

lemma Logout_Inr:
  assumes "Logout s e st tok = (Inr resp, st')" and "Success resp"
  obtains c d bl tbl where
    "ValidateRefreshToken (jwtManager s) (now e) tok = Inr c"
    "ExpiresAt c = Some d" "now e < d"
    "redis_Set e (blacklist_keys st) tok ''1'' (d - now e) = (None, bl)"
    "redis_Del e (refresh_keys st) (UserID c) = (None, tbl)"
    "st' = st\<lparr>blacklist_keys := bl, refresh_keys := tbl\<rparr>"
proof -
  from assms obtain c where c: "ValidateRefreshToken (jwtManager s) (now e) tok = Inr c"
    by (auto simp: Logout_def split: sum.splits)
  with assms obtain d where d: "ExpiresAt c = Some d"
    by (auto simp: Logout_def split: option.splits)
  from c have "Validate (now e) c = []"
    by (auto simp: ValidateRefreshToken_Inr elim: ValidateToken_Inr)
  then have lt: "now e < d"
    using d by (rule Validate_expiry)
  with assms c d that show thesis
    by (auto simp: Logout_def Until_def Let_def split: prod.splits option.splits)
qed

lemma Login_Inr:
  assumes "Login s e st req = (Inr resp, st')"
  obtains user tbl where
    "GetByEmail e (users st) (Login_Email req) = Inr user"
    "CheckPassword user (Login_Password req)"
    "LoggedIn_UserId resp = User_ID user"
    "GenerateTokenPair (jwtManager s) e (User_ID user) (User_Email user)
       = Inr (LoggedIn_AccessToken resp, LoggedIn_RefreshToken resp)"
    "redis_Set e (refresh_keys st) (User_ID user) (LoggedIn_RefreshToken resp)
       (RefreshTokenTTL (config s)) = (None, tbl)"
    "st' = st\<lparr>refresh_keys := tbl\<rparr>"
  using assms unfolding Login_def
  by (auto split: sum.splits if_splits prod.splits option.splits)

subsection \<open>The deny-list under each request\<close>

lemma Register_blacklist:
  "blacklist_keys (snd (Register s e st req)) = blacklist_keys st"
  unfolding Register_def
  by (auto split: sum.splits if_splits prod.splits option.splits)

lemma Login_blacklist:
  "blacklist_keys (snd (Login s e st req)) = blacklist_keys st"
  unfolding Login_def
  by (auto split: sum.splits if_splits prod.splits option.splits)

lemma Refresh_blacklist:
  "blacklist_keys (snd (Refresh s e st tok)) = blacklist_keys st"
  unfolding Refresh_def
  by (auto split: sum.splits if_splits prod.splits option.splits)

lemma Login_users:
  "users (snd (Login s e st req)) = users st"
  unfolding Login_def
  by (auto split: sum.splits if_splits prod.splits option.splits)

subsection \<open>Validation of access tokens by the server\<close>

lemma Server_ValidateToken_invalid:
  "ValidateAccessToken (jwtManager s) (now e) tok = Inl err \<Longrightarrow>
     Server_ValidateToken s e tok
       = Inr \<lparr>Valid = False, UserId = [], Validated_Email = [], ExpiresIn = 0\<rparr>"
  by (simp add: Server_ValidateToken_def)

lemma Server_ValidateToken_valid:
  "ValidateAccessToken (jwtManager s) (now e) tok = Inr c \<Longrightarrow> ExpiresAt c = Some d \<Longrightarrow>
     Server_ValidateToken s e tok
       = Inr \<lparr>Valid = True, UserId = UserID c, Validated_Email = Email c,
              ExpiresIn = Seconds (d - now e)\<rparr>"
  by (simp add: Server_ValidateToken_def Until_def)

text \<open>The handler fails only by the panic, and only on accepted claims without expiry.\<close>

lemma Server_ValidateToken_Inl:
  "Server_ValidateToken s e tok = Inl err \<longleftrightarrow>
     err = NilPointerDereference
     \<and> (\<exists>c. ValidateAccessToken (jwtManager s) (now e) tok = Inr c \<and> ExpiresAt c = None)"
  by (auto simp: Server_ValidateToken_def split: sum.splits option.splits)

lemma Server_ValidateToken_issued:
  assumes "GenerateTokenPair (jwtManager s) e0 uid email = Inr (a, r)"
    and "now e < NewNumericDate (now e0 + accessTokenTTL (jwtManager s))"
  shows "Server_ValidateToken s e a
       = Inr \<lparr>Valid = True, UserId = uid, Validated_Email = email,
              ExpiresIn = Seconds (NewNumericDate (now e0 + accessTokenTTL (jwtManager s)) - now e)\<rparr>"
proof -
  from assms(1) obtain c where c: "UserID c = uid" "Email c = email" "Type c = ''access''"
    "ExpiresAt c = Some (NewNumericDate (now e0 + accessTokenTTL (jwtManager s)))"
    "NotBefore c = None"
    "a = Compact ''HS256'' c (HMAC SHA256 (secret (jwtManager s)) ''HS256'' c)"
    by (rule GenerateTokenPair_access_claims)
  from c(6,4,5) assms(2) have "ValidateToken (jwtManager s) (now e) a = Inr c"
    by (rule ValidateToken_issued)
  with c(3) have "ValidateAccessToken (jwtManager s) (now e) a = Inr c"
    by (simp add: ValidateAccessToken_Inr)
  from Server_ValidateToken_valid[OF this c(4)] c(1,2) show ?thesis
    by simp
qed

subsection \<open>Claims on the token codec and on validation\<close>

lemma GetSigningMethod_HS:
  "GetSigningMethod ''HS256'' = Some (SigningMethodHMAC SHA256)"
  "GetSigningMethod ''HS384'' = Some (SigningMethodHMAC SHA384)"
  "GetSigningMethod ''HS512'' = Some (SigningMethodHMAC SHA512)"
  by (simp_all add: GetSigningMethod_def)

lemma GetSigningMethod_other:
  "alg \<noteq> ''HS256'' \<Longrightarrow> alg \<noteq> ''HS384'' \<Longrightarrow> alg \<noteq> ''HS512'' \<Longrightarrow>
     GetSigningMethod alg \<noteq> Some (SigningMethodHMAC h)"
  by (simp add: GetSigningMethod_def)

lemma GetSigningMethod_HMAC:
  "GetSigningMethod alg = Some (SigningMethodHMAC h) \<longleftrightarrow>
     alg = ''HS256'' \<and> h = SHA256 \<or> alg = ''HS384'' \<and> h = SHA384 \<or> alg = ''HS512'' \<and> h = SHA512"
proof -
  consider "alg = ''HS256''" | "alg = ''HS384''" | "alg = ''HS512''"
    | "alg \<noteq> ''HS256''" "alg \<noteq> ''HS384''" "alg \<noteq> ''HS512''"
    by blast
  then show ?thesis
  proof cases
    case 1
    then show ?thesis by (auto simp: GetSigningMethod_HS)
  next
    case 2
    then show ?thesis by (auto simp: GetSigningMethod_HS)
  next
    case 3
    then show ?thesis by (auto simp: GetSigningMethod_HS)
  next
    case 4
    then show ?thesis by (simp add: GetSigningMethod_other)
  qed
qed

lemma ValidateToken_Compact:
  "ValidateToken j t (Compact alg claims sg) =
    (case GetSigningMethod alg of
       None \<Rightarrow> Inl (FailedToParseToken ErrTokenUnverifiable)
     | Some m \<Rightarrow>
        (case keyFunc j m of
           Inl err \<Rightarrow> Inl (FailedToParseToken ErrTokenUnverifiable)
         | Inr key \<Rightarrow>
            if \<not> Verify m key alg claims sg then Inl (FailedToParseToken ErrTokenSignatureInvalid)
            else if Validate t claims \<noteq> []
            then Inl (FailedToParseToken (ErrTokenInvalidClaims (Validate t claims)))
            else Inr claims))"
  by (simp add: ValidateToken_def ParseWithClaims_def split: option.splits sum.splits)

lemma ValidateToken_foreign_signature:
  assumes "\<forall>h. GetSigningMethod alg = Some (SigningMethodHMAC h) \<longrightarrow> sg \<noteq> HMAC h (secret j) alg claims"
  shows "ValidateToken j t (Compact alg claims sg)
           = Inl (FailedToParseToken
                   (if alg = ''HS256'' \<or> alg = ''HS384'' \<or> alg = ''HS512''
                    then ErrTokenSignatureInvalid else ErrTokenUnverifiable))"
proof (cases "\<exists>h. GetSigningMethod alg = Some (SigningMethodHMAC h)")
  case True
  then obtain h where h: "GetSigningMethod alg = Some (SigningMethodHMAC h)"
    by blast
  then have "alg = ''HS256'' \<or> alg = ''HS384'' \<or> alg = ''HS512''"
    unfolding GetSigningMethod_HMAC by blast
  moreover from h assms have "sg \<noteq> HMAC h (secret j) alg claims"
    by blast
  ultimately show ?thesis
    using h by (simp add: ValidateToken_Compact)
next
  case False
  then have no: "\<not> (alg = ''HS256'' \<or> alg = ''HS384'' \<or> alg = ''HS512'')"
    unfolding GetSigningMethod_HMAC by blast
  have "ValidateToken j t (Compact alg claims sg) = Inl (FailedToParseToken ErrTokenUnverifiable)"
  proof (cases "GetSigningMethod alg")
    case None
    then show ?thesis
      by (simp add: ValidateToken_Compact)
  next
    case (Some m)
    with False show ?thesis
      by (cases m) (simp_all add: ValidateToken_Compact)
  qed
  with no show ?thesis
    by simp
qed

lemma ValidateToken_HMAC_signed:
  assumes "GetSigningMethod alg = Some (SigningMethodHMAC h)" and "Validate t claims = []"
  shows "ValidateToken j t (Compact alg claims (HMAC h (secret j) alg claims)) = Inr claims"
  using assms by (simp add: ValidateToken_Compact)

text \<open>
  C2 (corrected). The key function of \<^verbatim>\<open>ValidateToken\<close> admits the whole HMAC family
  and not HS256 alone. The header selects an HMAC method exactly when it names HS256,
  HS384 or HS512. A token whose signature is not the HMAC, by the method its header
  selects, of its own header and claims under the secret of the server is rejected with
  an error, whatever its claims are: as unverifiable when the header names no HMAC
  method, as having an invalid signature otherwise. A token that is so signed under any
  of the three methods is accepted when its claims pass validation.
\<close>

theorem ValidateToken_pins_HMAC_family:
  "(GetSigningMethod alg = Some (SigningMethodHMAC h) \<longleftrightarrow>
      alg = ''HS256'' \<and> h = SHA256 \<or> alg = ''HS384'' \<and> h = SHA384
      \<or> alg = ''HS512'' \<and> h = SHA512)
   \<and> ((\<forall>h'. GetSigningMethod alg = Some (SigningMethodHMAC h') \<longrightarrow>
              sg \<noteq> HMAC h' (secret j) alg claims) \<longrightarrow>
        ValidateToken j t (Compact alg claims sg)
          = Inl (FailedToParseToken
                  (if alg = ''HS256'' \<or> alg = ''HS384'' \<or> alg = ''HS512''
                   then ErrTokenSignatureInvalid else ErrTokenUnverifiable)))
   \<and> (GetSigningMethod alg = Some (SigningMethodHMAC h) \<longrightarrow> Validate t claims = [] \<longrightarrow>
        ValidateToken j t (Compact alg claims (HMAC h (secret j) alg claims)) = Inr claims)"
proof (intro conjI impI)
  show "GetSigningMethod alg = Some (SigningMethodHMAC h) \<longleftrightarrow>
      alg = ''HS256'' \<and> h = SHA256 \<or> alg = ''HS384'' \<and> h = SHA384
      \<or> alg = ''HS512'' \<and> h = SHA512"
    by (rule GetSigningMethod_HMAC)
next
  assume "\<forall>h'. GetSigningMethod alg = Some (SigningMethodHMAC h') \<longrightarrow>
              sg \<noteq> HMAC h' (secret j) alg claims"
  then show "ValidateToken j t (Compact alg claims sg)
          = Inl (FailedToParseToken
                  (if alg = ''HS256'' \<or> alg = ''HS384'' \<or> alg = ''HS512''
                   then ErrTokenSignatureInvalid else ErrTokenUnverifiable))"
    by (rule ValidateToken_foreign_signature)
next
  assume "GetSigningMethod alg = Some (SigningMethodHMAC h)" and "Validate t claims = []"
  then show "ValidateToken j t (Compact alg claims (HMAC h (secret j) alg claims)) = Inr claims"
    by (rule ValidateToken_HMAC_signed)
qed

theorem ValidateToken_pins_HMAC_family_witness:
  "ValidateToken (jwtManager srv0) 0
     (Compact ''none'' (access_claims 0 ''a1'') (OtherSignature []))
     = Inl (FailedToParseToken ErrTokenUnverifiable)
   \<and> ValidateToken (jwtManager srv0) 0
     (Compact ''HS256'' (access_claims 0 ''a1'') (OtherSignature []))
     = Inl (FailedToParseToken ErrTokenSignatureInvalid)
   \<and> ValidateToken (jwtManager srv0) 0
     (Compact ''HS256'' (access_claims 0 ''a1'')
        (HMAC SHA384 ''k'' ''HS256'' (access_claims 0 ''a1'')))
     = Inl (FailedToParseToken ErrTokenSignatureInvalid)
   \<and> ValidateToken (jwtManager srv0) 0
     (Compact ''HS256'' (access_claims 0 ''a1'')
        (HMAC SHA256 ''x'' ''HS256'' (access_claims 0 ''a1'')))
     = Inl (FailedToParseToken ErrTokenSignatureInvalid)
   \<and> ValidateToken (jwtManager srv0) 0 (hs512 (access_claims 0 ''a1''))
     = Inr (access_claims 0 ''a1'')"
proof -
  let ?j = "jwtManager srv0"
  let ?c = "access_claims 0 ''a1''"
  have key: "secret ?j = ''k''"
    by (simp add: example_defs)
  have "\<forall>h'. GetSigningMethod ''none'' = Some (SigningMethodHMAC h') \<longrightarrow>
          OtherSignature [] \<noteq> HMAC h' (secret ?j) ''none'' ?c"
    by simp
  with ValidateToken_pins_HMAC_family [of "''none''" _ "OtherSignature []" ?j ?c 0]
  have a: "ValidateToken ?j 0 (Compact ''none'' ?c (OtherSignature []))
             = Inl (FailedToParseToken ErrTokenUnverifiable)"
    by simp
  have "\<forall>h'. GetSigningMethod ''HS256'' = Some (SigningMethodHMAC h') \<longrightarrow>
          OtherSignature [] \<noteq> HMAC h' (secret ?j) ''HS256'' ?c"
    by simp
  with ValidateToken_pins_HMAC_family [of "''HS256''" _ "OtherSignature []" ?j ?c 0]
  have b: "ValidateToken ?j 0 (Compact ''HS256'' ?c (OtherSignature []))
             = Inl (FailedToParseToken ErrTokenSignatureInvalid)"
    by simp
  have "\<forall>h'. GetSigningMethod ''HS256'' = Some (SigningMethodHMAC h') \<longrightarrow>
          HMAC SHA384 ''k'' ''HS256'' ?c \<noteq> HMAC h' (secret ?j) ''HS256'' ?c"
    by (simp add: GetSigningMethod_HS)
  with ValidateToken_pins_HMAC_family
         [of "''HS256''" _ "HMAC SHA384 ''k'' ''HS256'' ?c" ?j ?c 0]
  have c: "ValidateToken ?j 0 (Compact ''HS256'' ?c (HMAC SHA384 ''k'' ''HS256'' ?c))
             = Inl (FailedToParseToken ErrTokenSignatureInvalid)"
    by simp
  have "\<forall>h'. GetSigningMethod ''HS256'' = Some (SigningMethodHMAC h') \<longrightarrow>
          HMAC SHA256 ''x'' ''HS256'' ?c \<noteq> HMAC h' (secret ?j) ''HS256'' ?c"
    by (simp add: key)
  with ValidateToken_pins_HMAC_family
         [of "''HS256''" _ "HMAC SHA256 ''x'' ''HS256'' ?c" ?j ?c 0]
  have d: "ValidateToken ?j 0 (Compact ''HS256'' ?c (HMAC SHA256 ''x'' ''HS256'' ?c))
             = Inl (FailedToParseToken ErrTokenSignatureInvalid)"
    by simp
  have "GetSigningMethod ''HS512'' = Some (SigningMethodHMAC SHA512)"
    and "Validate 0 ?c = []"
    by (simp_all add: GetSigningMethod_HS Validate_def access_claims_def Second_def)
  with ValidateToken_pins_HMAC_family [of "''HS512''" SHA512 _ ?j ?c 0]
  have e: "ValidateToken ?j 0 (hs512 ?c) = Inr ?c"
    by (simp add: hs512_def key)
  from a b c d e show ?thesis
    by simp
qed

text \<open>
  A token that is signed with HMAC-SHA384 under the secret of the server, and says so in
  its header, is accepted although it was not signed with HS256.
\<close>

theorem ValidateToken_accepts_HS384:
  "ValidateToken (jwtManager srv0) 0 (hs384 (access_claims 0 ''a1''))
     = Inr (access_claims 0 ''a1'')"
  by (simp add: example_defs codec_defs)

text \<open>
  C7 (the code departs from the claim). A correctly signed access token that carries no
  \<^verbatim>\<open>exp\<close> claim passes \<^verbatim>\<open>ValidateAccessToken\<close>; the handler then reads
  \<^verbatim>\<open>claims.ExpiresAt.Time\<close> through a nil pointer and panics instead of answering.
\<close>

theorem Server_ValidateToken_panics_without_expiry:
  "Server_ValidateToken srv0 env0 (hs256 eternal_claims) = Inl NilPointerDereference"
  by (simp add: example_defs codec_defs Server_ValidateToken_def)

text \<open>
  C8 (confirmed). \<^verbatim>\<open>Refresh\<close> leaves the deny-list exactly as it was, whether it succeeds
  or fails, and so do \<^verbatim>\<open>Register\<close> and \<^verbatim>\<open>Login\<close>; \<^verbatim>\<open>ValidateToken\<close> has no access to
  the store. \<^verbatim>\<open>Logout\<close> is the only request left that writes to it.
\<close>

theorem deny_list_untouched_outside_Logout:
  "blacklist_keys (snd (Refresh s e st tok)) = blacklist_keys st
   \<and> blacklist_keys (snd (Register s e st rreq)) = blacklist_keys st
   \<and> blacklist_keys (snd (Login s e st lreq)) = blacklist_keys st"
  by (simp add: Refresh_blacklist Register_blacklist Login_blacklist)

theorem deny_list_untouched_outside_Logout_witness:
  "fst (Refresh srv0 env1 st1 (hs256 (refresh_claims 0 ''r1'')))
     = Inr \<lparr>AccessToken = hs256 (access_claims Second ''a2''), AccessExpiresIn = 900,
            RefreshToken = hs256 (refresh_claims Second ''r2''), RefreshExpiresIn = 604800\<rparr>
   \<and> blacklist_keys (snd (Refresh srv0 env1 st1 (hs256 (refresh_claims 0 ''r1'')))) = Map.empty"
proof -
  have "fst (Refresh srv0 env1 st1 (hs256 (refresh_claims 0 ''r1'')))
     = Inr \<lparr>AccessToken = hs256 (access_claims Second ''a2''), AccessExpiresIn = 900,
            RefreshToken = hs256 (refresh_claims Second ''r2''), RefreshExpiresIn = 604800\<rparr>"
    by (simp add: Refresh_def example_defs codec_defs store_defs Seconds_def)
  moreover have "blacklist_keys st1 = Map.empty"
    by (simp add: st1_def)
  ultimately show ?thesis
    using deny_list_untouched_outside_Logout
      [of srv0 env1 st1 "hs256 (refresh_claims 0 ''r1'')"]
    by simp
qed

subsection \<open>The checks of Refresh, one by one\<close>

lemma Refresh_blacklisted:
  "RedisExists \<notin> faults e \<Longrightarrow> revoked (now e) st tok \<Longrightarrow>
     Refresh s e st tok = (Inl RefreshTokenBlacklisted, st)"
  by (auto simp: Refresh_def redis_Exists_cases revoked_def)

lemma Refresh_invalid:
  "RedisExists \<notin> faults e \<Longrightarrow> \<not> revoked (now e) st tok \<Longrightarrow>
   ValidateRefreshToken (jwtManager s) (now e) tok = Inl err \<Longrightarrow>
     Refresh s e st tok = (Inl (InvalidRefreshToken err), st)"
  by (simp add: Refresh_def redis_Exists_cases revoked_def)

lemma Refresh_not_found:
  "RedisExists \<notin> faults e \<Longrightarrow> \<not> revoked (now e) st tok \<Longrightarrow>
   ValidateRefreshToken (jwtManager s) (now e) tok = Inr c \<Longrightarrow>
   RedisGet \<notin> faults e \<Longrightarrow> activeRefresh (now e) st (UserID c) = None \<Longrightarrow>
     Refresh s e st tok = (Inl (RefreshTokenNotFound RedisNil), st)"
  by (simp add: Refresh_def redis_Exists_cases revoked_def activeRefresh_def redis_Get_def)

lemma Refresh_mismatch:
  "RedisExists \<notin> faults e \<Longrightarrow> \<not> revoked (now e) st tok \<Longrightarrow>
   ValidateRefreshToken (jwtManager s) (now e) tok = Inr c \<Longrightarrow>
   RedisGet \<notin> faults e \<Longrightarrow> activeRefresh (now e) st (UserID c) = Some stored \<Longrightarrow>
   stored \<noteq> tok \<Longrightarrow>
     Refresh s e st tok = (Inl RefreshTokenMismatch, st)"
  by (simp add: Refresh_def redis_Exists_cases revoked_def activeRefresh_def redis_Get_def)

lemma Refresh_rotates:
  assumes "Refresh s e st tok = (Inr resp, st')"
  obtains c where
    "\<not> revoked (now e) st tok"
    "ValidateRefreshToken (jwtManager s) (now e) tok = Inr c"
    "activeRefresh (now e) st (UserID c) = Some tok"
    "GenerateTokenPair (jwtManager s) e (UserID c) (Email c)
       = Inr (AccessToken resp, RefreshToken resp)"
    "activeRefresh (now e) st' (UserID c) = Some (RefreshToken resp)"
    "blacklist_keys st' = blacklist_keys st" "users st' = users st"
proof -
  from assms obtain c tbl where c:
    "live (now e) (blacklist_keys st) tok = None"
    "ValidateRefreshToken (jwtManager s) (now e) tok = Inr c"
    "live (now e) (refresh_keys st) (UserID c) = Some tok"
    "GenerateTokenPair (jwtManager s) e (UserID c) (Email c)
       = Inr (AccessToken resp, RefreshToken resp)"
    "redis_Set e (refresh_keys st) (UserID c) (RefreshToken resp) (RefreshTokenTTL (config s))
       = (None, tbl)"
    "st' = st\<lparr>refresh_keys := tbl\<rparr>"
    by (rule Refresh_Inr)
  from c(5) have "live (now e) tbl (UserID c) = Some (RefreshToken resp)"
    by (rule redis_Set_ok)
  with c that show thesis
    by (simp add: revoked_def activeRefresh_def)
qed

lemma ValidateRefreshToken_checks:
  assumes "ValidateRefreshToken j t tok = Inr c"
  shows "\<exists>alg h. tok = Compact alg c (HMAC h (secret j) alg c)
           \<and> GetSigningMethod alg = Some (SigningMethodHMAC h)"
    and "\<And>d. ExpiresAt c = Some d \<Longrightarrow> t < d"
    and "Type c = ''refresh''"
proof -
  from assms have v: "ValidateToken j t tok = Inr c" and ty: "Type c = ''refresh''"
    by (simp_all add: ValidateRefreshToken_Inr)
  from v show "\<exists>alg h. tok = Compact alg c (HMAC h (secret j) alg c)
           \<and> GetSigningMethod alg = Some (SigningMethodHMAC h)"
    by (auto elim: ValidateToken_Inr)
  from v have "Validate t c = []"
    by (auto elim: ValidateToken_Inr)
  then show "\<And>d. ExpiresAt c = Some d \<Longrightarrow> t < d"
    by (rule Validate_expiry)
  from ty show "Type c = ''refresh''" .
qed

subsection \<open>Claims on acceptance and on the order of checks\<close>

text \<open>
  C1 (corrected). A refresh token that \<^verbatim>\<open>Refresh\<close> accepts verifies as a refresh token,
  is not revoked, and is the active refresh token of the principal it names. A refresh
  token that \<^verbatim>\<open>Logout\<close> accepts verifies as a refresh token; \<^verbatim>\<open>Logout\<close> consults neither
  the deny-list nor the active entry before it accepts.
\<close>

theorem accepted_refresh_token:
  "(Refresh s e st tok = (Inr resp, st') \<longrightarrow>
      (\<exists>c. ValidateRefreshToken (jwtManager s) (now e) tok = Inr c
          \<and> \<not> revoked (now e) st tok
          \<and> activeRefresh (now e) st (UserID c) = Some tok))
   \<and> (Logout s e st tok = (Inr \<lparr>Success = True\<rparr>, st'') \<longrightarrow>
      (\<exists>c. ValidateRefreshToken (jwtManager s) (now e) tok = Inr c))"
proof (intro conjI impI)
  assume "Refresh s e st tok = (Inr resp, st')"
  then show "\<exists>c. ValidateRefreshToken (jwtManager s) (now e) tok = Inr c
          \<and> \<not> revoked (now e) st tok
          \<and> activeRefresh (now e) st (UserID c) = Some tok"
    by (rule Refresh_rotates) blast
next
  assume "Logout s e st tok = (Inr \<lparr>Success = True\<rparr>, st'')"
  then show "\<exists>c. ValidateRefreshToken (jwtManager s) (now e) tok = Inr c"
    by (rule Logout_Inr) auto
qed

lemma Refresh_example:
  "Refresh srv0 env1 st1 (hs256 (refresh_claims 0 ''r1''))
     = (Inr \<lparr>AccessToken = hs256 (access_claims Second ''a2''), AccessExpiresIn = 900,
             RefreshToken = hs256 (refresh_claims Second ''r2''), RefreshExpiresIn = 604800\<rparr>,
        st1_rotated)"
  by (simp add: Refresh_def example_defs codec_defs store_defs Seconds_def)

lemma Logout_example:
  "Logout srv0 env1 st1 (hs256 (refresh_claims 0 ''r1''))
     = (Inr \<lparr>Success = True\<rparr>, st1_revoked)"
  by (simp add: Logout_def example_defs codec_defs store_defs Until_def)

lemma ValidateRefreshToken_example:
  "ValidateRefreshToken (jwtManager srv0) (now env1) (hs256 (refresh_claims 0 ''r1''))
     = Inr (refresh_claims 0 ''r1'')"
  by (simp add: example_defs codec_defs)

theorem accepted_refresh_token_witness:
  "Refresh srv0 env1 st1 (hs256 (refresh_claims 0 ''r1''))
     = (Inr \<lparr>AccessToken = hs256 (access_claims Second ''a2''), AccessExpiresIn = 900,
             RefreshToken = hs256 (refresh_claims Second ''r2''), RefreshExpiresIn = 604800\<rparr>,
        st1_rotated)
   \<and> Logout srv0 env1 st1 (hs256 (refresh_claims 0 ''r1'')) = (Inr \<lparr>Success = True\<rparr>, st1_revoked)
   \<and> ValidateRefreshToken (jwtManager srv0) (now env1) (hs256 (refresh_claims 0 ''r1''))
       = Inr (refresh_claims 0 ''r1'')
   \<and> \<not> revoked (now env1) st1 (hs256 (refresh_claims 0 ''r1''))
   \<and> activeRefresh (now env1) st1 (UserID (refresh_claims 0 ''r1''))
       = Some (hs256 (refresh_claims 0 ''r1''))"
  using accepted_refresh_token
    [of srv0 env1 st1 "hs256 (refresh_claims 0 ''r1'')"
        "\<lparr>AccessToken = hs256 (access_claims Second ''a2''), AccessExpiresIn = 900,
          RefreshToken = hs256 (refresh_claims Second ''r2''), RefreshExpiresIn = 604800\<rparr>"
        st1_rotated st1_revoked]
    Refresh_example Logout_example ValidateRefreshToken_example
  by auto

text \<open>
  \<^verbatim>\<open>Logout\<close> accepts a verifiable refresh token for a principal that has no active
  entry, and it accepts the token of \<open>st1_revoked\<close> again although it is on the deny-list.
\<close>

theorem Logout_accepts_inactive_and_revoked:
  "fst (Logout srv0 env1 st0 (hs256 (refresh_claims 0 ''r1''))) = Inr \<lparr>Success = True\<rparr>
   \<and> activeRefresh (now env1) st0 (UserID (refresh_claims 0 ''r1'')) = None
   \<and> fst (Logout srv0 env2 st1_revoked (hs256 (refresh_claims 0 ''r1''))) = Inr \<lparr>Success = True\<rparr>
   \<and> revoked (now env2) st1_revoked (hs256 (refresh_claims 0 ''r1''))"
  by (simp add: Logout_def example_defs codec_defs store_defs Until_def)

lemma Refresh_success:
  assumes "RedisExists \<notin> faults e" and "\<not> revoked (now e) st tok"
    and "ValidateRefreshToken (jwtManager s) (now e) tok = Inr c"
    and "RedisGet \<notin> faults e" and "activeRefresh (now e) st (UserID c) = Some tok"
    and "GenerateTokenPair (jwtManager s) e (UserID c) (Email c) = Inr (a, r)"
    and "RedisSet \<notin> faults e"
  shows "\<exists>st'. Refresh s e st tok
           = (Inr \<lparr>AccessToken = a, AccessExpiresIn = Seconds (AccessTokenTTL (config s)),
                   RefreshToken = r, RefreshExpiresIn = Seconds (RefreshTokenTTL (config s))\<rparr>,
              st')
           \<and> activeRefresh (now e) st' (UserID c) = Some r"
proof -
  obtain tbl where
    tbl: "redis_Set e (refresh_keys st) (UserID c) r (RefreshTokenTTL (config s)) = (None, tbl)"
    using redis_Set_no_fault
      [OF assms(7), of "refresh_keys st" "UserID c" r "RefreshTokenTTL (config s)"]
    by (elim exE)
  then have "live (now e) tbl (UserID c) = Some r"
    by (rule redis_Set_ok)
  moreover from assms(1-6) tbl have "Refresh s e st tok
           = (Inr \<lparr>AccessToken = a, AccessExpiresIn = Seconds (AccessTokenTTL (config s)),
                   RefreshToken = r, RefreshExpiresIn = Seconds (RefreshTokenTTL (config s))\<rparr>,
              st\<lparr>refresh_keys := tbl\<rparr>)"
    by (simp add: Refresh_def redis_Exists_cases revoked_def activeRefresh_def redis_Get_def)
  ultimately show ?thesis
    by (simp add: activeRefresh_def)
qed

text \<open>
  C3 (confirmed). While the session store answers, \<^verbatim>\<open>Refresh\<close> fails at the first check
  that does not pass, in this order: the deny-list, the verification of the token (its
  signature, its expiry, its kind), the presence of an active entry for the principal
  of the claims, the equality of that entry with the presented token. Every failure
  leaves the state as it was. A new pair is issued, and the active entry overwritten
  with the new refresh token, only if all four checks have passed.
\<close>

theorem Refresh_checks_in_order:
  assumes "RedisExists \<notin> faults e" and "RedisGet \<notin> faults e"
  shows
    "(revoked (now e) st tok \<longrightarrow> Refresh s e st tok = (Inl RefreshTokenBlacklisted, st))
   \<and> (\<not> revoked (now e) st tok \<longrightarrow>
        (\<forall>err. ValidateRefreshToken (jwtManager s) (now e) tok = Inl err \<longrightarrow>
           Refresh s e st tok = (Inl (InvalidRefreshToken err), st))
      \<and> (\<forall>c. ValidateRefreshToken (jwtManager s) (now e) tok = Inr c \<longrightarrow>
           (\<exists>alg h. tok = Compact alg c (HMAC h (secret (jwtManager s)) alg c)
               \<and> GetSigningMethod alg = Some (SigningMethodHMAC h))
         \<and> (\<forall>d. ExpiresAt c = Some d \<longrightarrow> now e < d)
         \<and> Type c = ''refresh''
         \<and> (activeRefresh (now e) st (UserID c) = None \<longrightarrow>
              Refresh s e st tok = (Inl (RefreshTokenNotFound RedisNil), st))
         \<and> (\<forall>stored. activeRefresh (now e) st (UserID c) = Some stored \<longrightarrow> stored \<noteq> tok \<longrightarrow>
              Refresh s e st tok = (Inl RefreshTokenMismatch, st))))
   \<and> (\<forall>resp st'. Refresh s e st tok = (Inr resp, st') \<longrightarrow>
        \<not> revoked (now e) st tok
      \<and> (\<exists>c. ValidateRefreshToken (jwtManager s) (now e) tok = Inr c
           \<and> activeRefresh (now e) st (UserID c) = Some tok
           \<and> GenerateTokenPair (jwtManager s) e (UserID c) (Email c)
               = Inr (AccessToken resp, RefreshToken resp)
           \<and> activeRefresh (now e) st' (UserID c) = Some (RefreshToken resp)))
   \<and> (\<forall>err st'. Refresh s e st tok = (Inl err, st') \<longrightarrow> st' = st)"
proof (intro conjI impI allI)
  assume "revoked (now e) st tok"
  with assms(1) show "Refresh s e st tok = (Inl RefreshTokenBlacklisted, st)"
    by (rule Refresh_blacklisted)
next
  fix err
  assume "\<not> revoked (now e) st tok"
    and "ValidateRefreshToken (jwtManager s) (now e) tok = Inl err"
  with assms(1) show "Refresh s e st tok = (Inl (InvalidRefreshToken err), st)"
    by (rule Refresh_invalid)
next
  fix c
  assume v: "ValidateRefreshToken (jwtManager s) (now e) tok = Inr c"
  from v show "\<exists>alg h. tok = Compact alg c (HMAC h (secret (jwtManager s)) alg c)
               \<and> GetSigningMethod alg = Some (SigningMethodHMAC h)"
    by (rule ValidateRefreshToken_checks)
  from v show "Type c = ''refresh''"
    by (rule ValidateRefreshToken_checks)
  {
    fix d
    assume "ExpiresAt c = Some d"
    with v show "now e < d"
      by (rule ValidateRefreshToken_checks)
  }
  assume n: "\<not> revoked (now e) st tok"
  {
    assume "activeRefresh (now e) st (UserID c) = None"
    with assms n v show "Refresh s e st tok = (Inl (RefreshTokenNotFound RedisNil), st)"
      by (simp add: Refresh_not_found)
  }
  {
    fix stored
    assume "activeRefresh (now e) st (UserID c) = Some stored" and "stored \<noteq> tok"
    with assms n v show "Refresh s e st tok = (Inl RefreshTokenMismatch, st)"
      by (simp add: Refresh_mismatch)
  }
next
  fix resp st'
  assume r: "Refresh s e st tok = (Inr resp, st')"
  then show "\<not> revoked (now e) st tok"
    by (rule Refresh_rotates)
  from r show "\<exists>c. ValidateRefreshToken (jwtManager s) (now e) tok = Inr c
           \<and> activeRefresh (now e) st (UserID c) = Some tok
           \<and> GenerateTokenPair (jwtManager s) e (UserID c) (Email c)
               = Inr (AccessToken resp, RefreshToken resp)
           \<and> activeRefresh (now e) st' (UserID c) = Some (RefreshToken resp)"
    by (rule Refresh_rotates) blast
next
  fix err st'
  assume "Refresh s e st tok = (Inl err, st')"
  then show "st' = st"
    by (rule Refresh_Inl)
qed

theorem Refresh_checks_in_order_witness:
  "Refresh srv0 env2 st1_revoked (hs256 (refresh_claims 0 ''r1''))
     = (Inl RefreshTokenBlacklisted, st1_revoked)
   \<and> Refresh srv0 env1 st1 (hs256 (access_claims 0 ''a1''))
     = (Inl (InvalidRefreshToken ExpectedRefresh), st1)
   \<and> Refresh srv0 env1 st0 (hs256 (refresh_claims 0 ''r1''))
     = (Inl (RefreshTokenNotFound RedisNil), st0)
   \<and> Refresh srv0 env2 st1_rotated (hs256 (refresh_claims 0 ''r1''))
     = (Inl RefreshTokenMismatch, st1_rotated)
   \<and> activeRefresh (now env1) st1_rotated ''u1'' = Some (hs256 (refresh_claims Second ''r2''))"
proof -
  let ?T = "hs256 (refresh_claims 0 ''r1'')"
  have f1: "RedisExists \<notin> faults env1" "RedisGet \<notin> faults env1"
    by (simp_all add: env1_def)
  have f2: "RedisExists \<notin> faults env2" "RedisGet \<notin> faults env2"
    by (simp_all add: env2_def)
  have "revoked (now env2) st1_revoked ?T"
    by (simp add: example_defs store_defs)
  with Refresh_checks_in_order [OF f2, where s = srv0 and st = st1_revoked and tok = ?T]
  have a: "Refresh srv0 env2 st1_revoked ?T = (Inl RefreshTokenBlacklisted, st1_revoked)"
    by blast
  have "\<not> revoked (now env1) st1 (hs256 (access_claims 0 ''a1''))"
    and "ValidateRefreshToken (jwtManager srv0) (now env1) (hs256 (access_claims 0 ''a1''))
           = Inl ExpectedRefresh"
    by (simp_all add: example_defs store_defs codec_defs)
  with Refresh_checks_in_order
         [OF f1, where s = srv0 and st = st1 and tok = "hs256 (access_claims 0 ''a1'')"]
  have b: "Refresh srv0 env1 st1 (hs256 (access_claims 0 ''a1''))
     = (Inl (InvalidRefreshToken ExpectedRefresh), st1)"
    by blast
  have "\<not> revoked (now env1) st0 ?T"
    and "ValidateRefreshToken (jwtManager srv0) (now env1) ?T = Inr (refresh_claims 0 ''r1'')"
    and "activeRefresh (now env1) st0 (UserID (refresh_claims 0 ''r1'')) = None"
    by (simp_all add: example_defs store_defs codec_defs)
  with Refresh_checks_in_order [OF f1, where s = srv0 and st = st0 and tok = ?T]
  have c: "Refresh srv0 env1 st0 ?T = (Inl (RefreshTokenNotFound RedisNil), st0)"
    by blast
  have "\<not> revoked (now env2) st1_rotated ?T"
    and "ValidateRefreshToken (jwtManager srv0) (now env2) ?T = Inr (refresh_claims 0 ''r1'')"
    and "activeRefresh (now env2) st1_rotated (UserID (refresh_claims 0 ''r1''))
           = Some (hs256 (refresh_claims Second ''r2''))"
    and "hs256 (refresh_claims Second ''r2'') \<noteq> ?T"
    by (simp_all add: example_defs store_defs codec_defs)
  with Refresh_checks_in_order [OF f2, where s = srv0 and st = st1_rotated and tok = ?T]
  have d: "Refresh srv0 env2 st1_rotated ?T = (Inl RefreshTokenMismatch, st1_rotated)"
    by blast
  from Refresh_checks_in_order [OF f1, where s = srv0 and st = st1 and tok = ?T]
    Refresh_example
  have "\<exists>c. ValidateRefreshToken (jwtManager srv0) (now env1) ?T = Inr c
           \<and> activeRefresh (now env1) st1_rotated (UserID c)
               = Some (hs256 (refresh_claims Second ''r2''))"
    by fastforce
  then obtain c' where v: "ValidateRefreshToken (jwtManager srv0) (now env1) ?T = Inr c'"
    and active: "activeRefresh (now env1) st1_rotated (UserID c')
                   = Some (hs256 (refresh_claims Second ''r2''))"
    by blast
  from v have "c' = refresh_claims 0 ''r1''"
    by (simp add: ValidateRefreshToken_example)
  then have "UserID c' = ''u1''"
    by (simp add: refresh_claims_def)
  with active have e: "activeRefresh (now env1) st1_rotated ''u1''
                  = Some (hs256 (refresh_claims Second ''r2''))"
    by simp
  from a b c d e show ?thesis
    by simp
qed

subsection \<open>Claims on rotation\<close>

lemma live_entry:
  "live t tbl k = Some v \<Longrightarrow> \<exists>d. tbl k = Some (v, d)"
  by (auto simp: live_def split: option.splits if_splits)

lemma redis_Set_entry:
  "redis_Set e tbl k v ttl = (None, tbl') \<Longrightarrow> \<exists>d. tbl' k = Some (v, d)"
  by (auto simp: redis_Set_def split: if_splits)

lemma GetByEmail_Inr:
  "GetByEmail e rows email = Inr u \<longleftrightarrow>
     DbGetByEmail \<notin> faults e \<and> find (\<lambda>r. User_Email r = email) rows = Some u"
  by (simp add: GetByEmail_def split: option.splits)

lemma ValidateRefreshToken_claims_of:
  "ValidateRefreshToken j t tok = Inr c \<Longrightarrow> claims_of tok = Some c"
  by (auto simp: ValidateRefreshToken_Inr dest: ValidateToken_claims_of)

lemma issued_refresh_token_new:
  assumes "GenerateTokenPair j e uid email = Inr (a, r)"
    and "map_option ID (claims_of tok) \<noteq> Some (refresh_uuid e)"
  shows "r \<noteq> tok"
proof
  assume "r = tok"
  moreover from assms(1) obtain c where "claims_of r = Some c" "ID c = refresh_uuid e"
    by (rule GenerateTokenPair_refresh_claims)
  ultimately show False
    using assms(2) by simp
qed

text \<open>
  C5 (confirmed). After \<^verbatim>\<open>Refresh\<close> has accepted a token, the active entry of its
  principal holds the newly issued refresh token. When the fresh \<^verbatim>\<open>uuid\<close> of the new
  token is not the identifier of the presented one, the two tokens differ, no later
  \<^verbatim>\<open>Refresh\<close> of the presented token on the resulting state succeeds, and the one that
  follows at once, with the session store answering, fails because of the mismatch.
\<close>

theorem Refresh_single_use:
  assumes "Refresh s e st tok = (Inr resp, st')"
    and "map_option ID (claims_of tok) \<noteq> Some (refresh_uuid e)"
  shows "RefreshToken resp \<noteq> tok
     \<and> (\<exists>c. claims_of tok = Some c
           \<and> activeRefresh (now e) st' (UserID c) = Some (RefreshToken resp))
     \<and> (\<forall>e'. \<exists>err. Refresh s e' st' tok = (Inl err, st'))
     \<and> (\<forall>e'. now e' = now e \<longrightarrow> RedisExists \<notin> faults e' \<longrightarrow> RedisGet \<notin> faults e' \<longrightarrow>
           Refresh s e' st' tok = (Inl RefreshTokenMismatch, st'))"
proof -
  from assms(1) obtain c tbl where c:
    "live (now e) (blacklist_keys st) tok = None"
    "ValidateRefreshToken (jwtManager s) (now e) tok = Inr c"
    "GenerateTokenPair (jwtManager s) e (UserID c) (Email c)
       = Inr (AccessToken resp, RefreshToken resp)"
    "redis_Set e (refresh_keys st) (UserID c) (RefreshToken resp) (RefreshTokenTTL (config s))
       = (None, tbl)"
    "st' = st\<lparr>refresh_keys := tbl\<rparr>"
    by (rule Refresh_Inr)
  from c(2) have claims: "claims_of tok = Some c"
    by (rule ValidateRefreshToken_claims_of)
  from c(3) assms(2) have new: "RefreshToken resp \<noteq> tok"
    by (rule issued_refresh_token_new)
  from c(4) have active: "activeRefresh (now e) st' (UserID c) = Some (RefreshToken resp)"
    by (simp add: activeRefresh_def c(5) redis_Set_ok(2))
  from c(4) obtain d where entry: "refresh_keys st' (UserID c) = Some (RefreshToken resp, d)"
    using redis_Set_entry [OF c(4)] by (auto simp: c(5))
  have fails: "\<exists>err. Refresh s e' st' tok = (Inl err, st')" for e'
  proof (cases "Refresh s e' st' tok")
    case (Pair res st'')
    show ?thesis
    proof (cases res)
      case (Inl err)
      with Pair Refresh_Inl show ?thesis
        by blast
    next
      case (Inr resp')
      with Pair have "Refresh s e' st' tok = (Inr resp', st'')"
        by simp
      then obtain c' where v: "ValidateRefreshToken (jwtManager s) (now e') tok = Inr c'"
        and l: "live (now e') (refresh_keys st') (UserID c') = Some tok"
        by (rule Refresh_Inr)
      from v have "claims_of tok = Some c'"
        by (rule ValidateRefreshToken_claims_of)
      with claims have "c' = c"
        by simp
      with l entry have "RefreshToken resp = tok"
        by (auto dest: live_entry)
      with new show ?thesis
        by simp
    qed
  qed
  have mismatch: "Refresh s e' st' tok = (Inl RefreshTokenMismatch, st')"
    if "now e' = now e" "RedisExists \<notin> faults e'" "RedisGet \<notin> faults e'" for e'
  proof -
    from c(1) have "\<not> revoked (now e') st' tok"
      by (simp add: revoked_def c(5) that(1))
    moreover from c(2) have "ValidateRefreshToken (jwtManager s) (now e') tok = Inr c"
      by (simp add: that(1))
    moreover from active have "activeRefresh (now e') st' (UserID c) = Some (RefreshToken resp)"
      by (simp add: that(1))
    ultimately show ?thesis
      using that(2,3) new by (simp add: Refresh_mismatch)
  qed
  from new claims active fails mismatch show ?thesis
    by blast
qed

theorem Refresh_single_use_witness:
  "Refresh srv0 env1 st1 (hs256 (refresh_claims 0 ''r1''))
     = (Inr \<lparr>AccessToken = hs256 (access_claims Second ''a2''), AccessExpiresIn = 900,
             RefreshToken = hs256 (refresh_claims Second ''r2''), RefreshExpiresIn = 604800\<rparr>,
        st1_rotated)
   \<and> map_option ID (claims_of (hs256 (refresh_claims 0 ''r1''))) \<noteq> Some (refresh_uuid env1)
   \<and> Refresh srv0 env1 st1_rotated (hs256 (refresh_claims 0 ''r1''))
     = (Inl RefreshTokenMismatch, st1_rotated)"
proof -
  have fresh: "map_option ID (claims_of (hs256 (refresh_claims 0 ''r1'')))
                 \<noteq> Some (refresh_uuid env1)"
    by (simp add: example_defs)
  have "RedisExists \<notin> faults env1" and "RedisGet \<notin> faults env1"
    by (simp_all add: env1_def)
  with Refresh_single_use [OF Refresh_example fresh]
  have "Refresh srv0 env1 st1_rotated (hs256 (refresh_claims 0 ''r1''))
          = (Inl RefreshTokenMismatch, st1_rotated)"
    by blast
  with Refresh_example fresh show ?thesis
    by simp
qed

lemma NewServer_simps:
  "refreshTokenTTL (jwtManager (NewServer cfg)) = RefreshTokenTTL cfg"
  "accessTokenTTL (jwtManager (NewServer cfg)) = AccessTokenTTL cfg"
  "secret (jwtManager (NewServer cfg)) = Secret cfg"
  "config (NewServer cfg) = cfg"
  by (simp_all add: NewServer_def NewJWTManager_def)

text \<open>
  C4 (confirmed). Two successful logins of the same principal leave the refresh token
  of the second one in the active entry of the principal. With distinct \<^verbatim>\<open>uuid\<close>s for the
  two refresh tokens and a clock that does not run backwards, a later \<^verbatim>\<open>Refresh\<close> of the
  first token, while that token still verifies, is not revoked and the session store
  answers, fails with the mismatch error and changes nothing.
\<close>

theorem second_Login_invalidates_first_refresh_token:
  assumes first: "Login (NewServer cfg) e1 sa req1 = (Inr resp1, sb)"
    and second: "Login (NewServer cfg) e2 sb req2 = (Inr resp2, sc)"
    and same: "LoggedIn_UserId resp2 = LoggedIn_UserId resp1"
    and fresh: "refresh_uuid e2 \<noteq> refresh_uuid e1"
    and clock: "now e1 \<le> now e2" "now e2 \<le> now e3"
    and store: "RedisExists \<notin> faults e3" "RedisGet \<notin> faults e3"
    and not_revoked: "\<not> revoked (now e3) sc (LoggedIn_RefreshToken resp1)"
    and verifies: "ValidateRefreshToken (jwtManager (NewServer cfg)) (now e3)
                     (LoggedIn_RefreshToken resp1) = Inr c"
  shows "activeRefresh (now e3) sc (LoggedIn_UserId resp1) = Some (LoggedIn_RefreshToken resp2)
     \<and> LoggedIn_RefreshToken resp2 \<noteq> LoggedIn_RefreshToken resp1
     \<and> Refresh (NewServer cfg) e3 sc (LoggedIn_RefreshToken resp1)
          = (Inl RefreshTokenMismatch, sc)"
proof -
  let ?s = "NewServer cfg"
  let ?ttl = "RefreshTokenTTL cfg"
  let ?T1 = "LoggedIn_RefreshToken resp1"
  let ?T2 = "LoggedIn_RefreshToken resp2"
  from first obtain u1 :: User where one:
    "LoggedIn_UserId resp1 = User_ID u1"
    "GenerateTokenPair (jwtManager ?s) e1 (User_ID u1) (User_Email u1)
       = Inr (LoggedIn_AccessToken resp1, ?T1)"
    by (rule Login_Inr)
  from second obtain u2 :: User and tbl2 where two:
    "LoggedIn_UserId resp2 = User_ID u2"
    "GenerateTokenPair (jwtManager ?s) e2 (User_ID u2) (User_Email u2)
       = Inr (LoggedIn_AccessToken resp2, ?T2)"
    "redis_Set e2 (refresh_keys sb) (User_ID u2) ?T2 (RefreshTokenTTL (config ?s)) = (None, tbl2)"
    "sc = sb\<lparr>refresh_keys := tbl2\<rparr>"
    by (rule Login_Inr)
  from one(1) two(1) same have user: "User_ID u2 = User_ID u1"
    by simp
  from one(2) obtain c1 where c1: "claims_of ?T1 = Some c1" "UserID c1 = User_ID u1"
    "ExpiresAt c1 = Some (NewNumericDate (now e1 + ?ttl))" "ID c1 = refresh_uuid e1"
    by (rule GenerateTokenPair_refresh_claims) (simp add: NewServer_simps)
  from verifies have "claims_of ?T1 = Some c"
    by (rule ValidateRefreshToken_claims_of)
  with c1(1) have c: "c = c1"
    by simp
  from verifies c1(3) have "now e3 < NewNumericDate (now e1 + ?ttl)"
    unfolding c by (rule ValidateRefreshToken_checks)
  with NewNumericDate_le [of "now e1 + ?ttl"] have before: "now e3 < now e1 + ?ttl"
    by simp
  with clock have positive: "0 < ?ttl" and alive: "now e3 < now e2 + ?ttl"
    by simp_all
  from two(3) positive have "tbl2 = (refresh_keys sb)(User_ID u2 \<mapsto> (?T2, Some (now e2 + ?ttl)))"
    by (simp add: redis_Set_positive NewServer_simps)
  with alive have active: "activeRefresh (now e3) sc (User_ID u1) = Some ?T2"
    by (simp add: activeRefresh_def live_def two(4) user)
  from c1(1,4) fresh have "map_option ID (claims_of ?T1) \<noteq> Some (refresh_uuid e2)"
    by simp
  with two(2) have differ: "?T2 \<noteq> ?T1"
    by (rule issued_refresh_token_new)
  from store(1) not_revoked verifies store(2) active differ
  have "Refresh ?s e3 sc ?T1 = (Inl RefreshTokenMismatch, sc)"
    by (simp add: Refresh_mismatch c c1(2))
  with one(1) active differ show ?thesis
    by simp
qed

lemma Login_example_1:
  "Login (NewServer cfg0) env1 st1 login1
     = (Inr (logged_in (hs256 (access_claims Second ''a2'')) (hs256 (refresh_claims Second ''r2''))),
        st1_rotated)"
  by (simp add: Login_def example_defs codec_defs store_defs Seconds_def)

lemma Login_example_2:
  "Login (NewServer cfg0) env2 st1_rotated login1
     = (Inr (logged_in (hs256 (access_claims (2 * Second) ''a3''))
               (hs256 (refresh_claims (2 * Second) ''r3''))),
        st1_relogged)"
  by (simp add: Login_def example_defs codec_defs store_defs Seconds_def)

theorem second_Login_invalidates_first_refresh_token_witness:
  "Login (NewServer cfg0) env1 st1 login1
     = (Inr (logged_in (hs256 (access_claims Second ''a2'')) (hs256 (refresh_claims Second ''r2''))),
        st1_rotated)
   \<and> Login (NewServer cfg0) env2 st1_rotated login1
     = (Inr (logged_in (hs256 (access_claims (2 * Second) ''a3''))
               (hs256 (refresh_claims (2 * Second) ''r3''))),
        st1_relogged)
   \<and> Refresh (NewServer cfg0) env2 st1_relogged (hs256 (refresh_claims Second ''r2''))
     = (Inl RefreshTokenMismatch, st1_relogged)"
proof -
  have "LoggedIn_UserId (logged_in (hs256 (access_claims (2 * Second) ''a3''))
                           (hs256 (refresh_claims (2 * Second) ''r3'')))
        = LoggedIn_UserId (logged_in (hs256 (access_claims Second ''a2''))
                             (hs256 (refresh_claims Second ''r2'')))"
    and "refresh_uuid env2 \<noteq> refresh_uuid env1"
    and "now env1 \<le> now env2" and "now env2 \<le> now env2"
    and "RedisExists \<notin> faults env2" and "RedisGet \<notin> faults env2"
    by (simp_all add: example_defs)
  moreover have "\<not> revoked (now env2) st1_relogged
      (LoggedIn_RefreshToken
        (logged_in (hs256 (access_claims Second ''a2'')) (hs256 (refresh_claims Second ''r2''))))"
    by (simp add: example_defs store_defs)
  moreover have "ValidateRefreshToken (jwtManager (NewServer cfg0)) (now env2)
      (LoggedIn_RefreshToken
        (logged_in (hs256 (access_claims Second ''a2'')) (hs256 (refresh_claims Second ''r2''))))
      = Inr (refresh_claims Second ''r2'')"
    by (simp add: example_defs codec_defs)
  ultimately have "Refresh (NewServer cfg0) env2 st1_relogged
      (LoggedIn_RefreshToken
        (logged_in (hs256 (access_claims Second ''a2'')) (hs256 (refresh_claims Second ''r2''))))
      = (Inl RefreshTokenMismatch, st1_relogged)"
    using second_Login_invalidates_first_refresh_token [OF Login_example_1 Login_example_2]
    by blast
  then show ?thesis
    by (simp add: Login_example_1 Login_example_2) (simp add: logged_in_def)
qed

subsection \<open>Claims on revocation\<close>

text \<open>
  A deny-list entry that expires with its token survives every later request: only
  \<^verbatim>\<open>Logout\<close> writes to the deny-list, under the key of the token it was given, and a
  repeated \<^verbatim>\<open>Logout\<close> of the same token writes the same entry again.
\<close>

lemma Logout_keeps_entry:
  assumes "blacklist_keys st tok = Some (''1'', Some d)"
    and "claims_of tok = Some c" and "ExpiresAt c = Some d"
  shows "blacklist_keys (snd (Logout s e st tok')) tok = Some (''1'', Some d)"
proof (cases "ValidateRefreshToken (jwtManager s) (now e) tok'")
  case (Inl err)
  with assms(1) show ?thesis
    by (simp add: Logout_def)
next
  case (Inr c')
  show ?thesis
  proof (cases "ExpiresAt c'")
    case None
    with Inr assms(1) show ?thesis
      by (simp add: Logout_def)
  next
    case (Some d')
    have same: "d' = d" if "tok' = tok"
    proof -
      from Inr have "claims_of tok' = Some c'"
        by (rule ValidateRefreshToken_claims_of)
      with that assms(2,3) Some show ?thesis
        by simp
    qed
    from Inr Some assms(1) same show ?thesis
      by (auto simp: Logout_def Let_def Until_def redis_Set_def redis_Del_def
               split: if_splits)
  qed
qed

lemma serve_keeps_entry:
  assumes "blacklist_keys st tok = Some (''1'', Some d)"
    and "claims_of tok = Some c" and "ExpiresAt c = Some d"
  shows "blacklist_keys (serve s st rq) tok = Some (''1'', Some d)"
proof (cases rq)
  case (Pair e r)
  with assms show ?thesis
    by (cases r)
       (simp_all add: Register_blacklist Login_blacklist Refresh_blacklist Logout_keeps_entry)
qed

lemma serve_all_keeps_entry:
  assumes "blacklist_keys st tok = Some (''1'', Some d)"
    and "claims_of tok = Some c" and "ExpiresAt c = Some d"
  shows "blacklist_keys (serve_all s st reqs) tok = Some (''1'', Some d)"
  using assms(1)
proof (induction reqs arbitrary: st)
  case Nil
  then show ?case
    by (simp add: serve_all_def)
next
  case (Cons rq reqs)
  from Cons.prems assms(2,3) have "blacklist_keys (serve s st rq) tok = Some (''1'', Some d)"
    by (rule serve_keeps_entry)
  then have "blacklist_keys (serve_all s (serve s st rq) reqs) tok = Some (''1'', Some d)"
    by (rule Cons.IH)
  then show ?case
    by (simp add: serve_all_def)
qed

lemma Logout_entry:
  assumes "Logout s e st tok = (Inr \<lparr>Success = True\<rparr>, st')"
  obtains c d where "claims_of tok = Some c" "ExpiresAt c = Some d" "now e < d"
    "blacklist_keys st' tok = Some (''1'', Some d)"
proof -
  from assms obtain c d bl tbl where l:
    "ValidateRefreshToken (jwtManager s) (now e) tok = Inr c"
    "ExpiresAt c = Some d" "now e < d"
    "redis_Set e (blacklist_keys st) tok ''1'' (d - now e) = (None, bl)"
    "st' = st\<lparr>blacklist_keys := bl, refresh_keys := tbl\<rparr>"
    by (rule Logout_Inr) simp
  from l(3) have "0 < d - now e"
    by simp
  with l(4) have "bl = (blacklist_keys st)(tok \<mapsto> (''1'', Some (now e + (d - now e))))"
    by (rule redis_Set_positive)
  with l(5) have "blacklist_keys st' tok = Some (''1'', Some d)"
    by simp
  moreover from l(1) have "claims_of tok = Some c"
    by (rule ValidateRefreshToken_claims_of)
  ultimately show thesis
    using l(2,3) that by blast
qed

text \<open>
  C6 (confirmed). A refresh token that \<^verbatim>\<open>Logout\<close> has accepted carries an expiry after
  the instant of the call and is on the deny-list from then on. Whatever requests are
  served afterwards, as long as the expiry has not passed \<^verbatim>\<open>Refresh\<close> of that token never
  succeeds: it fails as blacklisted, or with the error of the deny-list check when the
  session store does not answer. The access token that was issued together with the
  refresh token is still reported valid until its own expiry.
\<close>

theorem Logout_revokes_refresh_token:
  assumes "Logout s e st tok = (Inr \<lparr>Success = True\<rparr>, st')"
  shows "\<exists>c d. claims_of tok = Some c \<and> ExpiresAt c = Some d \<and> now e < d
      \<and> revoked (now e) st' tok
      \<and> (\<forall>reqs e'. now e' < d \<longrightarrow>
            revoked (now e') (serve_all s st' reqs) tok
          \<and> Refresh s e' (serve_all s st' reqs) tok
              = (Inl (if RedisExists \<in> faults e' then RedisBlacklistCheckFailed RedisUnavailable
                      else RefreshTokenBlacklisted),
                 serve_all s st' reqs))
      \<and> (\<forall>a e0 uid email e''.
            GenerateTokenPair (jwtManager s) e0 uid email = Inr (a, tok) \<longrightarrow>
            now e'' < NewNumericDate (now e0 + accessTokenTTL (jwtManager s)) \<longrightarrow>
            Server_ValidateToken s e'' a
              = Inr \<lparr>Valid = True, UserId = uid, Validated_Email = email,
                     ExpiresIn = Seconds (NewNumericDate (now e0 + accessTokenTTL (jwtManager s))
                                            - now e'')\<rparr>)"
proof -
  from assms obtain c d where cd: "claims_of tok = Some c" "ExpiresAt c = Some d" "now e < d"
    and entry: "blacklist_keys st' tok = Some (''1'', Some d)"
    by (rule Logout_entry)
  from entry cd(3) have now: "revoked (now e) st' tok"
    by (simp add: revoked_def live_def)
  have later: "revoked (now e') (serve_all s st' reqs) tok
          \<and> Refresh s e' (serve_all s st' reqs) tok
              = (Inl (if RedisExists \<in> faults e' then RedisBlacklistCheckFailed RedisUnavailable
                      else RefreshTokenBlacklisted),
                 serve_all s st' reqs)"
    if "now e' < d" for reqs e'
  proof -
    from entry cd(1,2) have "blacklist_keys (serve_all s st' reqs) tok = Some (''1'', Some d)"
      by (rule serve_all_keeps_entry)
    with that have r: "revoked (now e') (serve_all s st' reqs) tok"
      by (simp add: revoked_def live_def)
    show ?thesis
    proof (cases "RedisExists \<in> faults e'")
      case True
      with r show ?thesis
        by (simp add: Refresh_def redis_Exists_def)
    next
      case False
      with r show ?thesis
        by (simp add: Refresh_blacklisted)
    qed
  qed
  from cd now later Server_ValidateToken_issued show ?thesis
    by blast
qed

lemma GenerateTokenPair_example:
  "GenerateTokenPair (jwtManager srv0) env0 ''u1'' ''a@x.com''
     = Inr (hs256 (access_claims 0 ''a1''), hs256 (refresh_claims 0 ''r1''))"
  by (simp add: example_defs codec_defs)

theorem Logout_revokes_refresh_token_witness:
  "Logout srv0 env1 st1 (hs256 (refresh_claims 0 ''r1'')) = (Inr \<lparr>Success = True\<rparr>, st1_revoked)
   \<and> revoked (now env1) st1_revoked (hs256 (refresh_claims 0 ''r1''))
   \<and> Refresh srv0 env2 (serve_all srv0 st1_revoked [(env2, LoginReq login1)])
        (hs256 (refresh_claims 0 ''r1''))
      = (Inl RefreshTokenBlacklisted, serve_all srv0 st1_revoked [(env2, LoginReq login1)])
   \<and> Server_ValidateToken srv0 env2 (hs256 (access_claims 0 ''a1''))
      = Inr \<lparr>Valid = True, UserId = ''u1'', Validated_Email = ''a@x.com'', ExpiresIn = 898\<rparr>"
proof -
  let ?T = "hs256 (refresh_claims 0 ''r1'')"
  let ?reqs = "[(env2, LoginReq login1)]"
  from Logout_revokes_refresh_token [OF Logout_example]
  obtain c d where cd: "claims_of ?T = Some c" "ExpiresAt c = Some d"
    and now: "revoked (now env1) st1_revoked ?T"
    and later: "\<And>reqs e'. now e' < d \<Longrightarrow>
          Refresh srv0 e' (serve_all srv0 st1_revoked reqs) ?T
              = (Inl (if RedisExists \<in> faults e' then RedisBlacklistCheckFailed RedisUnavailable
                      else RefreshTokenBlacklisted),
                 serve_all srv0 st1_revoked reqs)"
    and access: "\<And>a e0 uid email e''.
            GenerateTokenPair (jwtManager srv0) e0 uid email = Inr (a, ?T) \<Longrightarrow>
            now e'' < NewNumericDate (now e0 + accessTokenTTL (jwtManager srv0)) \<Longrightarrow>
            Server_ValidateToken srv0 e'' a
              = Inr \<lparr>Valid = True, UserId = uid, Validated_Email = email,
                     ExpiresIn = Seconds (NewNumericDate (now e0 + accessTokenTTL (jwtManager srv0))
                                            - now e'')\<rparr>"
    by blast
  from cd have "d = 604800 * Second"
    by (auto simp: hs256_def refresh_claims_def)
  then have "now env2 < d"
    by (simp add: env2_def Second_def)
  from later [OF this, of ?reqs]
  have blacklisted: "Refresh srv0 env2 (serve_all srv0 st1_revoked ?reqs) ?T
      = (Inl RefreshTokenBlacklisted, serve_all srv0 st1_revoked ?reqs)"
    by (simp add: env2_def)
  have "now env2 < NewNumericDate (now env0 + accessTokenTTL (jwtManager srv0))"
    by (simp add: example_defs NewNumericDate_def)
  from access [OF GenerateTokenPair_example this]
  have "Server_ValidateToken srv0 env2 (hs256 (access_claims 0 ''a1''))
      = Inr \<lparr>Valid = True, UserId = ''u1'', Validated_Email = ''a@x.com'', ExpiresIn = 898\<rparr>"
    by (simp add: example_defs NewNumericDate_def Seconds_def)
  with Logout_example now blacklisted show ?thesis
    by simp
qed

subsection \<open>Claims on credentials\<close>

text \<open>
  C9 (confirmed). A login whose lookup by email fails and a login whose password check
  fails return the same error value, \<open>InvalidCredentials\<close>, which carries no cause, and
  both leave the state as it was.
\<close>

theorem Login_failures_indistinguishable:
  assumes "GetByEmail e (users st) (Login_Email req) = Inl err"
    and "GetByEmail e' (users st') (Login_Email req') = Inr user"
    and "\<not> CheckPassword user (Login_Password req')"
  shows "Login s e st req = (Inl InvalidCredentials, st)
     \<and> Login s e' st' req' = (Inl InvalidCredentials, st')
     \<and> fst (Login s e st req) = fst (Login s e' st' req')"
  using assms by (simp add: Login_def)

theorem Login_failures_indistinguishable_witness:
  "GetByEmail env1 (users st1) ''b@x.com'' = Inl ErrNoRows
   \<and> GetByEmail env1 (users st1) ''a@x.com'' = Inr user1
   \<and> \<not> CheckPassword user1 ''wrong''
   \<and> Login srv0 env1 st1 \<lparr>Login_Email = ''b@x.com'', Login_Password = ''pw''\<rparr>
       = (Inl InvalidCredentials, st1)
   \<and> Login srv0 env1 st1 \<lparr>Login_Email = ''a@x.com'', Login_Password = ''wrong''\<rparr>
       = (Inl InvalidCredentials, st1)"
proof -
  have a: "GetByEmail env1 (users st1)
             (Login_Email \<lparr>Login_Email = ''b@x.com'', Login_Password = ''pw''\<rparr>) = Inl ErrNoRows"
    and b: "GetByEmail env1 (users st1)
             (Login_Email \<lparr>Login_Email = ''a@x.com'', Login_Password = ''wrong''\<rparr>) = Inr user1"
    and c: "\<not> CheckPassword user1
             (Login_Password \<lparr>Login_Email = ''a@x.com'', Login_Password = ''wrong''\<rparr>)"
    by (simp_all add: example_defs store_defs)
  from Login_failures_indistinguishable [OF a b c, of srv0] a b c show ?thesis
    by simp
qed

lemma find_append_cases:
  "find P (xs @ ys) = (case find P xs of None \<Rightarrow> find P ys | Some x \<Rightarrow> Some x)"
  by (induction xs) auto

lemma ExistsByEmail_found:
  "DbExistsByEmail \<notin> faults e \<Longrightarrow> find (\<lambda>u. User_Email u = email) rows \<noteq> None \<Longrightarrow>
     ExistsByEmail e rows email = Inr True"
  by (simp add: ExistsByEmail_def)

lemma Register_after_persist:
  assumes "Register s e st req = (Inl err, st')"
    and "err = FailedToGenerateTokens te \<or> err = FailedToStoreRefreshToken re"
  obtains user where "NewUser e (Register_Email req) (Register_Password req) (Register_Name req)
                        = Inr user"
    and "find (\<lambda>u. User_Email u = Register_Email req) (users st) = None"
    and "Create e (users st) user = (None, users st @ [user])"
    and "st' = st\<lparr>users := users st @ [user]\<rparr>"
proof -
  from assms obtain user rows where
    "ExistsByEmail e (users st) (Register_Email req) = Inr False"
    and u: "NewUser e (Register_Email req) (Register_Password req) (Register_Name req) = Inr user"
    and c: "Create e (users st) user = (None, rows)"
    and s: "st' = st\<lparr>users := rows\<rparr>"
    unfolding Register_def
    by (auto split: sum.splits if_splits prod.splits option.splits dest: redis_Set_err)
  then have "find (\<lambda>u. User_Email u = Register_Email req) (users st) = None"
    by (auto simp: ExistsByEmail_def split: if_splits)
  moreover from c have "rows = users st @ [user]"
    by (auto simp: Create_def split: if_splits)
  ultimately show thesis
    using u c s that by blast
qed

text \<open>
  C10 (confirmed). When \<^verbatim>\<open>Register\<close> fails in the generation of the tokens or in the
  write of the refresh token, the principal it created just before stays in the
  credential store, and every later \<^verbatim>\<open>Register\<close> with the same email, on a credential
  store that answers, fails because the user already exists.
\<close>

theorem Register_leaves_principal_behind:
  assumes "Register s e st req = (Inl err, st')"
    and "err = FailedToGenerateTokens te \<or> err = FailedToStoreRefreshToken re"
  shows "find (\<lambda>u. User_Email u = Register_Email req) (users st) = None
     \<and> find (\<lambda>u. User_Email u = Register_Email req) (users st') \<noteq> None
     \<and> refresh_keys st' = refresh_keys st
     \<and> (\<forall>e' req'. Register_Email req' = Register_Email req \<longrightarrow> DbExistsByEmail \<notin> faults e' \<longrightarrow>
           Register s e' st' req' = (Inl UserAlreadyExists, st'))"
proof -
  from assms obtain user where
    u: "NewUser e (Register_Email req) (Register_Password req) (Register_Name req) = Inr user"
    and before: "find (\<lambda>u. User_Email u = Register_Email req) (users st) = None"
    and s: "st' = st\<lparr>users := users st @ [user]\<rparr>"
    by (rule Register_after_persist)
  from u have "User_Email user = Register_Email req"
    by (auto simp: NewUser_def split: sum.splits)
  with before s have after: "find (\<lambda>u. User_Email u = Register_Email req) (users st') \<noteq> None"
    by (simp add: find_append_cases)
  have "Register s e' st' req' = (Inl UserAlreadyExists, st')"
    if "Register_Email req' = Register_Email req" "DbExistsByEmail \<notin> faults e'" for e' req'
    using that after by (simp add: Register_def ExistsByEmail_found)
  with before after s show ?thesis
    by simp
qed

theorem Register_leaves_principal_behind_witness:
  "Register srv0 env0_set_fails st0 register1
     = (Inl (FailedToStoreRefreshToken RedisUnavailable), st0_user1)
   \<and> find (\<lambda>u. User_Email u = ''a@x.com'') (users st0_user1) = Some user1
   \<and> Register srv0 env1 st0_user1 register1 = (Inl UserAlreadyExists, st0_user1)"
proof -
  have failed: "Register srv0 env0_set_fails st0 register1
     = (Inl (FailedToStoreRefreshToken RedisUnavailable), st0_user1)"
    by (simp add: Register_def example_defs codec_defs store_defs)
  have "DbExistsByEmail \<notin> faults env1"
    by (simp add: env1_def)
  with Register_leaves_principal_behind [OF failed, of FailedToSignRefreshToken RedisUnavailable]
  have "Register srv0 env1 st0_user1 register1 = (Inl UserAlreadyExists, st0_user1)"
    by blast
  moreover have "find (\<lambda>u. User_Email u = ''a@x.com'') (users st0_user1) = Some user1"
    by (simp add: example_defs)
  ultimately show ?thesis
    using failed by simp
qed

end
